theory Spec2Isabelle
  imports Complex_Main
begin

section \<open>Data model\<close>

text \<open>
  The program is the class \<open>VAE\<close> of \<open>src/vae/vae.py\<close>: four methods over PyTorch
  tensors. The four methods are modelled with exact real entries: this model says which
  formula is computed, which shapes are checked and what is drawn, and knows nothing of
  the rounding, the overflow to infinity and the NaN of float32 arithmetic; \<open>ln\<close> is
  PyTorch's \<open>log\<close> on positive arguments only. Where the sign and the growth of
  \<open>kl_divergence\<close> are concerned rounding and overflow decide, so that method is
  modelled a second time over float32 values (\<open>kl_divergence_f32\<close>).

  A two-dimensional tensor is its list of rows together with its number of columns
  (a tensor with no rows still has a second dimension). A one-dimensional tensor is a
  list. Every tensor the program can hold is rectangular: \<open>wf_tensor\<close>.
\<close>

record tensor =
  ncols :: nat
  rows :: "real list list"

definition nrows :: "tensor \<Rightarrow> nat" where
  "nrows t = length (rows t)"

definition wf_tensor :: "tensor \<Rightarrow> bool" where
  "wf_tensor t = list_all (\<lambda>r. length r = ncols t) (rows t)"

definition same_shape :: "tensor \<Rightarrow> tensor \<Rightarrow> bool" where
  "same_shape a b = (nrows a = nrows b \<and> ncols a = ncols b)"

text \<open>Entry \<open>(i, d)\<close> of a tensor.\<close>

definition entry :: "tensor \<Rightarrow> nat \<Rightarrow> nat \<Rightarrow> real" where
  "entry t i d = rows t ! i ! d"

text \<open>
  What the methods can raise. \<open>ShapeTypeError\<close> is the \<open>TypeError\<close> of the
  \<open>@typechecked\<close> decorator when the named dimensions of the annotations
  (\<open>TensorType['batch_size', 'latent_dim']\<close> and so on) do not agree; the others are
  PyTorch's \<open>RuntimeError\<close>s; \<open>NetworkError\<close> is whatever the encoder or the decoder
  raises.
\<close>

datatype error =
    ShapeTypeError
  | BroadcastError
  | NegativeDimension
  | BernoulliRange
  | DeviceError
  | NetworkError

fun bind_res :: "error + 'a \<Rightarrow> ('a \<Rightarrow> error + 'b) \<Rightarrow> error + 'b" where
  "bind_res (Inl e) f = Inl e"
| "bind_res (Inr v) f = f v"

section \<open>Tensor operations\<close>

text \<open>Elementwise functions and operations with a Python scalar.\<close>

definition t_map :: "(real \<Rightarrow> real) \<Rightarrow> tensor \<Rightarrow> tensor" where
  "t_map f t = \<lparr>ncols = ncols t, rows = map (map f) (rows t)\<rparr>"

text \<open>
  Binary elementwise operations broadcast: two sizes of a dimension are compatible when
  they are equal or one of them is 1, and the dimension of size 1 is repeated.
\<close>

definition bdim :: "nat \<Rightarrow> nat \<Rightarrow> nat option" where
  "bdim m n = (if m = n then Some m else if m = 1 then Some n
               else if n = 1 then Some m else None)"

definition expand_list :: "nat \<Rightarrow> 'a list \<Rightarrow> 'a list" where
  "expand_list n xs = (if length xs = n then xs else replicate n (hd xs))"

definition expand :: "nat \<Rightarrow> nat \<Rightarrow> tensor \<Rightarrow> tensor" where
  "expand r c t = \<lparr>ncols = c, rows = expand_list r (map (expand_list c) (rows t))\<rparr>"

definition t_binop :: "(real \<Rightarrow> real \<Rightarrow> real) \<Rightarrow> tensor \<Rightarrow> tensor \<Rightarrow> error + tensor" where
  "t_binop f a b =
     (case bdim (nrows a) (nrows b) of
        None \<Rightarrow> Inl BroadcastError
      | Some r \<Rightarrow>
         (case bdim (ncols a) (ncols b) of
            None \<Rightarrow> Inl BroadcastError
          | Some c \<Rightarrow>
              Inr \<lparr>ncols = c,
                   rows = map2 (map2 f) (rows (expand r c a)) (rows (expand r c b))\<rparr>))"

definition v_binop :: "(real \<Rightarrow> real \<Rightarrow> real) \<Rightarrow> real list \<Rightarrow> real list \<Rightarrow> error + real list" where
  "v_binop f u v =
     (case bdim (length u) (length v) of
        None \<Rightarrow> Inl BroadcastError
      | Some n \<Rightarrow> Inr (map2 f (expand_list n u) (expand_list n v)))"

text \<open>\<open>torch.sum(t, dim=1)\<close>: the sum of every row.\<close>

definition sum_dim1 :: "tensor \<Rightarrow> real list" where
  "sum_dim1 t = map sum_list (rows t)"

section \<open>The KL divergence\<close>

text \<open>
  \<^verbatim>\<open>kl = -0.5 * torch.sum(1 + 2 * logsigma - mu.pow(2) - (2 * logsigma).exp(), dim=1)\<close>
  under \<open>@typechecked\<close>: \<open>mu\<close> and \<open>logsigma\<close> must have the same two dimensions and
  the result must have the first of them.
\<close>

definition kl_divergence :: "tensor \<Rightarrow> tensor \<Rightarrow> error + real list" where
  "kl_divergence mu logsigma =
     (if \<not> same_shape mu logsigma then Inl ShapeTypeError
      else
        bind_res (t_binop (-) (t_map (\<lambda>v. 1 + v) (t_map (\<lambda>v. 2 * v) logsigma))
                              (t_map (\<lambda>v. v ^ 2) mu)) (\<lambda>a.
        bind_res (t_binop (-) a (t_map exp (t_map (\<lambda>v. 2 * v) logsigma))) (\<lambda>b.
        let kl = map (\<lambda>s. - 0.5 * s) (sum_dim1 b)
        in if length kl = nrows mu then Inr kl else Inl ShapeTypeError)))"

section \<open>The random-number generator\<close>

text \<open>
  \<open>torch.randn\<close>, \<open>torch.randn_like\<close> and \<open>torch.bernoulli\<close> read and advance the
  process-wide generator. Its state is passed explicitly: a generator is any state type
  \<open>'g\<close> with a standard-normal draw and a uniform draw on \<open>[0, 1)\<close>, each returning
  the value drawn and the next state. A tensor is filled entry by entry in row-major
  order. A call that raises returns only the error: the generator state after a failed
  call is not modelled.
\<close>

record 'g rng =
  next_normal :: "'g \<Rightarrow> real \<times> 'g"
  next_uniform :: "'g \<Rightarrow> real \<times> 'g"

primrec draws :: "('g \<Rightarrow> real \<times> 'g) \<Rightarrow> nat \<Rightarrow> 'g \<Rightarrow> real list \<times> 'g" where
  "draws d 0 g = ([], g)"
| "draws d (Suc n) g =
     (case d g of (v, g1) \<Rightarrow> (case draws d n g1 of (vs, g2) \<Rightarrow> (v # vs, g2)))"

primrec draw_rows :: "('g \<Rightarrow> real \<times> 'g) \<Rightarrow> nat \<Rightarrow> nat \<Rightarrow> 'g \<Rightarrow> real list list \<times> 'g" where
  "draw_rows d 0 c g = ([], g)"
| "draw_rows d (Suc r) c g =
     (case draws d c g of (row, g1) \<Rightarrow>
        (case draw_rows d r c g1 of (rs, g2) \<Rightarrow> (row # rs, g2)))"

text \<open>\<open>torch.randn(m, n)\<close>: a negative size is PyTorch's \<open>RuntimeError\<close>.\<close>

definition randn :: "'g rng \<Rightarrow> int \<Rightarrow> int \<Rightarrow> 'g \<Rightarrow> error + tensor \<times> 'g" where
  "randn R m n g =
     (if m < 0 \<or> n < 0 then Inl NegativeDimension
      else case draw_rows (next_normal R) (nat m) (nat n) g of
             (rs, g') \<Rightarrow> Inr (\<lparr>ncols = nat n, rows = rs\<rparr>, g'))"

text \<open>\<open>torch.randn_like(t)\<close>: standard-normal draws in the shape of \<open>t\<close>.\<close>

definition randn_like :: "'g rng \<Rightarrow> tensor \<Rightarrow> 'g \<Rightarrow> tensor \<times> 'g" where
  "randn_like R t g =
     (case draw_rows (next_normal R) (nrows t) (ncols t) g of
        (rs, g') \<Rightarrow> (\<lparr>ncols = ncols t, rows = rs\<rparr>, g'))"

text \<open>
  \<open>torch.bernoulli(theta)\<close>: every entry is 1 when a uniform draw is below the entry's
  probability and 0 otherwise; a probability outside \<open>[0, 1]\<close> is a \<open>RuntimeError\<close>.
\<close>

primrec bernoulli_row :: "('g \<Rightarrow> real \<times> 'g) \<Rightarrow> real list \<Rightarrow> 'g \<Rightarrow> real list \<times> 'g" where
  "bernoulli_row u [] g = ([], g)"
| "bernoulli_row u (p # ps) g =
     (case u g of (v, g1) \<Rightarrow>
        (case bernoulli_row u ps g1 of (xs, g2) \<Rightarrow> ((if v < p then 1 else 0) # xs, g2)))"

primrec bernoulli_rows :: "('g \<Rightarrow> real \<times> 'g) \<Rightarrow> real list list \<Rightarrow> 'g \<Rightarrow> real list list \<times> 'g" where
  "bernoulli_rows u [] g = ([], g)"
| "bernoulli_rows u (r # rs) g =
     (case bernoulli_row u r g of (xr, g1) \<Rightarrow>
        (case bernoulli_rows u rs g1 of (xs, g2) \<Rightarrow> (xr # xs, g2)))"

definition bernoulli :: "'g rng \<Rightarrow> tensor \<Rightarrow> 'g \<Rightarrow> error + tensor \<times> 'g" where
  "bernoulli R theta g =
     (if list_ex (list_ex (\<lambda>p. p < 0 \<or> 1 < p)) (rows theta) then Inl BernoulliRange
      else case bernoulli_rows (next_uniform R) (rows theta) g of
             (xs, g') \<Rightarrow> Inr (\<lparr>ncols = ncols theta, rows = xs\<rparr>, g'))"

section \<open>The model\<close>

text \<open>
  The class holds \<open>latent_dim\<close>, an encoder and a decoder. \<open>src/vae/encoder.py\<close> and
  \<open>src/vae/decoder.py\<close> are not part of the sources: the two networks are fields of the
  model, functions from tensors to tensors that may raise and do not touch the generator.
\<close>

record vae =
  latent_dim :: int
  encoder :: "tensor \<Rightarrow> error + tensor \<times> tensor"
  decoder :: "tensor \<Rightarrow> error + tensor"

subsection \<open>Sampling with reparametrization\<close>

text \<open>
  \<^verbatim>\<open>epsilon = torch.randn_like(mu)\<close>
  \<^verbatim>\<open>sigma = torch.exp(logsigma)\<close>
  \<^verbatim>\<open>z = mu + epsilon * sigma\<close>
  The function with the noise given is \<open>reparametrize\<close>; the method draws the noise and
  applies it, between the checks of \<open>@typechecked\<close>.
\<close>

definition reparametrize :: "tensor \<Rightarrow> tensor \<Rightarrow> tensor \<Rightarrow> error + tensor" where
  "reparametrize mu logsigma epsilon =
     (let sigma = t_map exp logsigma
      in bind_res (t_binop (*) epsilon sigma) (\<lambda>es. t_binop (+) mu es))"

definition sample_with_reparametrization ::
  "'g rng \<Rightarrow> tensor \<Rightarrow> tensor \<Rightarrow> 'g \<Rightarrow> error + tensor \<times> 'g" where
  "sample_with_reparametrization R mu logsigma g =
     (if \<not> same_shape mu logsigma then Inl ShapeTypeError
      else case randn_like R mu g of
             (epsilon, g') \<Rightarrow>
               bind_res (reparametrize mu logsigma epsilon) (\<lambda>z.
               if same_shape z mu then Inr (z, g') else Inl ShapeTypeError))"

subsection \<open>The evidence lower bound\<close>

text \<open>
  \<^verbatim>\<open>reconstruction_loss = torch.sum(x * torch.log(theta) + (1 - x) * torch.log(1 - theta), dim=1)\<close>
\<close>

definition reconstruction :: "tensor \<Rightarrow> tensor \<Rightarrow> error + real list" where
  "reconstruction x theta =
     bind_res (t_binop (*) x (t_map ln theta)) (\<lambda>a.
     bind_res (t_binop (*) (t_map (\<lambda>v. 1 - v) x) (t_map ln (t_map (\<lambda>v. 1 - v) theta))) (\<lambda>b.
     bind_res (t_binop (+) a b) (\<lambda>c. Inr (sum_dim1 c))))"

definition elbo :: "'g rng \<Rightarrow> vae \<Rightarrow> tensor \<Rightarrow> 'g \<Rightarrow> error + real list \<times> 'g" where
  "elbo R M x g =
     bind_res (encoder M x) (\<lambda>(mu, logsigma).
     bind_res (sample_with_reparametrization R mu logsigma g) (\<lambda>(z, g').
     bind_res (decoder M z) (\<lambda>theta.
     bind_res (reconstruction x theta) (\<lambda>reconstruction_loss.
     bind_res (kl_divergence mu logsigma) (\<lambda>kl.
     bind_res (v_binop (-) reconstruction_loss kl) (\<lambda>elbo_mc.
     if length elbo_mc = nrows x then Inr (elbo_mc, g') else Inl ShapeTypeError))))))"

subsection \<open>Generating samples\<close>

text \<open>
  \<open>.to(device)\<close> moves a tensor and leaves its entries as they are. Only placement on
  the CPU is modelled; any other device name is taken as a device the machine does not
  have.
\<close>

definition tensor_to :: "string \<Rightarrow> tensor \<Rightarrow> error + tensor" where
  "tensor_to device t = (if device = ''cpu'' then Inr t else Inl DeviceError)"

text \<open>
  \<^verbatim>\<open>z = torch.randn(num_samples, self.latent_dim).to(device)\<close>
  \<^verbatim>\<open>theta = self.decoder(z)\<close>
  \<^verbatim>\<open>x = torch.bernoulli(theta)\<close>
  There is no check of \<open>num_samples\<close>. The annotation of the result names the first
  dimension of the three tensors \<open>num_samples\<close> and the second of \<open>theta\<close> and \<open>x\<close>
  \<open>input_dim\<close>, so \<open>@typechecked\<close> raises when they differ.
\<close>

definition sample ::
  "'g rng \<Rightarrow> vae \<Rightarrow> int \<Rightarrow> string \<Rightarrow> 'g \<Rightarrow> error + (tensor \<times> tensor \<times> tensor) \<times> 'g" where
  "sample R M num_samples device g =
     bind_res (randn R num_samples (latent_dim M) g) (\<lambda>(z0, g1).
     bind_res (tensor_to device z0) (\<lambda>z.
     bind_res (decoder M z) (\<lambda>theta.
     bind_res (bernoulli R theta g1) (\<lambda>(x, g2).
     if nrows theta = nrows z \<and> nrows x = nrows z \<and> ncols x = ncols theta
     then Inr ((z, theta, x), g2) else Inl ShapeTypeError))))"

section \<open>The KL divergence in float32\<close>

text \<open>
  A float32 value is a finite number, an infinity or NaN. A finite value carries the real
  number it stands for (\<open>is_f32\<close> says that a real number is one); \<open>-0.0\<close> and
  \<open>0.0\<close>, which compare equal, are the one value \<open>Finite 0\<close>.
\<close>

datatype f32 = Finite real | PInf | NInf | NaN

text \<open>
  Rounding to nearest, ties to even: a real number with binary exponent \<open>e\<close> (at least
  \<open>-126\<close>, below which the values are subnormal) is rounded to a multiple of
  \<open>2^(e - 23)\<close>, and a result of magnitude \<open>2^128\<close> or more overflows to an infinity.
\<close>

definition round_ties_even :: "real \<Rightarrow> int" where
  "round_ties_even q =
     (let n = \<lfloor>q\<rfloor>; r = q - of_int n
      in if r < 1 / 2 then n else if 1 / 2 < r then n + 1
         else if even n then n else n + 1)"

definition f32_exponent :: "real \<Rightarrow> int" where
  "f32_exponent x = max \<lfloor>log 2 \<bar>x\<bar>\<rfloor> (- 126)"

definition round_f32 :: "real \<Rightarrow> f32" where
  "round_f32 x =
     (if x = 0 then Finite 0
      else let u = 2 powr of_int (f32_exponent x - 23);
               y = of_int (round_ties_even (x / u)) * u
           in if 2 ^ 128 \<le> \<bar>y\<bar> then (if 0 < x then PInf else NInf) else Finite y)"

definition is_f32 :: "real \<Rightarrow> bool" where
  "is_f32 x = (round_f32 x = Finite x)"

text \<open>
  The IEEE 754 operations: the exact result, rounded; an infinity minus itself and an
  infinity times zero are NaN; NaN propagates and compares false with everything.
\<close>

fun f32_neg :: "f32 \<Rightarrow> f32" where
  "f32_neg (Finite a) = Finite (- a)"
| "f32_neg PInf = NInf"
| "f32_neg NInf = PInf"
| "f32_neg NaN = NaN"

fun f32_add :: "f32 \<Rightarrow> f32 \<Rightarrow> f32" where
  "f32_add NaN b = NaN"
| "f32_add a NaN = NaN"
| "f32_add (Finite a) (Finite b) = round_f32 (a + b)"
| "f32_add PInf NInf = NaN"
| "f32_add NInf PInf = NaN"
| "f32_add PInf b = PInf"
| "f32_add a PInf = PInf"
| "f32_add NInf b = NInf"
| "f32_add a NInf = NInf"

definition f32_sub :: "f32 \<Rightarrow> f32 \<Rightarrow> f32" where
  "f32_sub a b = f32_add a (f32_neg b)"

fun f32_mul :: "f32 \<Rightarrow> f32 \<Rightarrow> f32" where
  "f32_mul NaN b = NaN"
| "f32_mul a NaN = NaN"
| "f32_mul (Finite a) (Finite b) = round_f32 (a * b)"
| "f32_mul (Finite a) b = (if a = 0 then NaN else if 0 < a then b else f32_neg b)"
| "f32_mul a (Finite b) = (if b = 0 then NaN else if 0 < b then a else f32_neg a)"
| "f32_mul PInf b = b"
| "f32_mul NInf b = f32_neg b"

text \<open>
  \<open>torch.exp\<close> is modelled as correctly rounded. The library promises an error of about
  one unit in the last place only; the statements below apply it at \<open>0\<close> and at
  \<open>+inf\<close>, where every implementation returns \<open>1\<close> and \<open>+inf\<close> exactly.
\<close>

fun f32_exp :: "f32 \<Rightarrow> f32" where
  "f32_exp (Finite a) = round_f32 (exp a)"
| "f32_exp PInf = PInf"
| "f32_exp NInf = Finite 0"
| "f32_exp NaN = NaN"

fun f32_less :: "f32 \<Rightarrow> f32 \<Rightarrow> bool" where
  "f32_less NaN b = False"
| "f32_less a NaN = False"
| "f32_less (Finite a) (Finite b) = (a < b)"
| "f32_less a NInf = False"
| "f32_less NInf b = True"
| "f32_less PInf b = False"
| "f32_less a PInf = True"

fun f32_le :: "f32 \<Rightarrow> f32 \<Rightarrow> bool" where
  "f32_le NaN b = False"
| "f32_le a NaN = False"
| "f32_le (Finite a) (Finite b) = (a \<le> b)"
| "f32_le NInf b = True"
| "f32_le a PInf = True"
| "f32_le a NInf = False"
| "f32_le PInf b = False"

text \<open>Tensors of float32 values, with the operations of the real model.\<close>

record ftensor =
  fcols :: nat
  frows :: "f32 list list"

definition fnrows :: "ftensor \<Rightarrow> nat" where
  "fnrows t = length (frows t)"

definition f_same_shape :: "ftensor \<Rightarrow> ftensor \<Rightarrow> bool" where
  "f_same_shape a b = (fnrows a = fnrows b \<and> fcols a = fcols b)"

definition ft_map :: "(f32 \<Rightarrow> f32) \<Rightarrow> ftensor \<Rightarrow> ftensor" where
  "ft_map f t = \<lparr>fcols = fcols t, frows = map (map f) (frows t)\<rparr>"

definition f_expand :: "nat \<Rightarrow> nat \<Rightarrow> ftensor \<Rightarrow> ftensor" where
  "f_expand r c t = \<lparr>fcols = c, frows = expand_list r (map (expand_list c) (frows t))\<rparr>"

definition ft_binop :: "(f32 \<Rightarrow> f32 \<Rightarrow> f32) \<Rightarrow> ftensor \<Rightarrow> ftensor \<Rightarrow> error + ftensor" where
  "ft_binop f a b =
     (case bdim (fnrows a) (fnrows b) of
        None \<Rightarrow> Inl BroadcastError
      | Some r \<Rightarrow>
         (case bdim (fcols a) (fcols b) of
            None \<Rightarrow> Inl BroadcastError
          | Some c \<Rightarrow>
              Inr \<lparr>fcols = c,
                   frows = map2 (map2 f) (frows (f_expand r c a)) (frows (f_expand r c b))\<rparr>))"

text \<open>
  \<open>torch.sum(t, dim=1)\<close> adds the entries of a row in an order the library chooses;
  here from left to right. The statements below are about rows of one entry and rows of
  zeros, where the order does not matter.
\<close>

definition fsum_dim1 :: "ftensor \<Rightarrow> f32 list" where
  "fsum_dim1 t = map (foldl f32_add (Finite 0)) (frows t)"

text \<open>
  \<^verbatim>\<open>kl = -0.5 * torch.sum(1 + 2 * logsigma - mu.pow(2) - (2 * logsigma).exp(), dim=1)\<close>
  on float32 tensors: the Python scalars \<open>1\<close>, \<open>2\<close> and \<open>-0.5\<close> are float32
  values, \<open>mu.pow(2)\<close> is the rounded product of an entry with itself, and every
  intermediate tensor is rounded.
\<close>

definition kl_divergence_f32 :: "ftensor \<Rightarrow> ftensor \<Rightarrow> error + f32 list" where
  "kl_divergence_f32 mu logsigma =
     (if \<not> f_same_shape mu logsigma then Inl ShapeTypeError
      else
        bind_res (ft_binop f32_sub
                    (ft_map (f32_add (Finite 1)) (ft_map (f32_mul (Finite 2)) logsigma))
                    (ft_map (\<lambda>v. f32_mul v v) mu)) (\<lambda>a.
        bind_res (ft_binop f32_sub a (ft_map f32_exp (ft_map (f32_mul (Finite 2)) logsigma))) (\<lambda>b.
        let kl = map (f32_mul (Finite (- 0.5))) (fsum_dim1 b)
        in if length kl = fnrows mu then Inr kl else Inl ShapeTypeError)))"

text \<open>The float32 tensor of zeros of a shape.\<close>

definition f_zeros :: "nat \<Rightarrow> nat \<Rightarrow> ftensor" where
  "f_zeros r c = \<lparr>fcols = c, frows = replicate r (replicate c (Finite 0))\<rparr>"

section \<open>Notions used in the statements\<close>

text \<open>
  The elementwise combination of two tensors of one shape, which is what a binary
  operation computes when nothing is broadcast.
\<close>

definition zipped :: "(real \<Rightarrow> real \<Rightarrow> real) \<Rightarrow> tensor \<Rightarrow> tensor \<Rightarrow> tensor" where
  "zipped f a b = \<lparr>ncols = ncols a, rows = map2 (map2 f) (rows a) (rows b)\<rparr>"

text \<open>The tensor that \<open>kl_divergence\<close> sums along its rows.\<close>

definition kl_terms :: "tensor \<Rightarrow> tensor \<Rightarrow> tensor" where
  "kl_terms mu logsigma =
     zipped (-) (zipped (-) (t_map (\<lambda>v. 1 + v) (t_map (\<lambda>v. 2 * v) logsigma))
                            (t_map (\<lambda>v. v ^ 2) mu))
                (t_map exp (t_map (\<lambda>v. 2 * v) logsigma))"

text \<open>A tensor with one entry replaced.\<close>

definition set_entry :: "tensor \<Rightarrow> nat \<Rightarrow> nat \<Rightarrow> real \<Rightarrow> tensor" where
  "set_entry t i d v = \<lparr>ncols = ncols t, rows = (rows t)[i := (rows t ! i)[d := v]]\<rparr>"

subsection \<open>A small model\<close>

text \<open>
  Posterior parameters for a batch of two and a latent space of two dimensions.
\<close>

definition example_mu :: tensor where
  "example_mu = \<lparr>ncols = 2, rows = [[1, 2], [0, 3]]\<rparr>"

definition example_logsigma :: tensor where
  "example_logsigma = \<lparr>ncols = 2, rows = [[0, 0], [0, 0]]\<rparr>"

text \<open>
  An observation batch of three rows and four columns with binary entries, a generator
  whose state is a counter (the normal draw returns the counter, the uniform draw
  alternates between a quarter and three quarters), and a model with two latent
  dimensions: the encoder returns the sum of a row and 0 as means and 0 as
  log-deviations, the decoder returns one half everywhere, as a network whose last
  layer is zero before the sigmoid does.
\<close>

definition example_x :: tensor where
  "example_x = \<lparr>ncols = 4, rows = [[1, 0, 1, 0], [0, 0, 0, 0], [1, 1, 1, 1]]\<rparr>"

definition example_rng :: "nat rng" where
  "example_rng = \<lparr>next_normal = (\<lambda>n. (real n, Suc n)),
                   next_uniform = (\<lambda>n. (if even n then 1 / 4 else 3 / 4, Suc n))\<rparr>"

definition example_vae :: vae where
  "example_vae =
     \<lparr>latent_dim = 2,
      encoder = (\<lambda>x. Inr (\<lparr>ncols = 2, rows = map (\<lambda>r. [sum_list r, 0]) (rows x)\<rparr>,
                          \<lparr>ncols = 2, rows = map (\<lambda>r. [0, 0]) (rows x)\<rparr>)),
      decoder = (\<lambda>z. Inr \<lparr>ncols = 4, rows = map (\<lambda>r. [1 / 2, 1 / 2, 1 / 2, 1 / 2]) (rows z)\<rparr>)\<rparr>"

text \<open>
  A second generator: its normal draws from state 10 on are those of \<open>example_rng\<close>
  from state 0 on, and its uniform draws are different.
\<close>

definition example_rng_shifted :: "nat rng" where
  "example_rng_shifted = \<lparr>next_normal = (\<lambda>n. (real n - 10, Suc n)),
                           next_uniform = (\<lambda>n. (1 / 2, Suc n))\<rparr>"

subsection \<open>The interfaces of the encoder and the decoder\<close>

text \<open>
  Modelled from the spec: the class \<open>Decoder\<close> (\<open>src/vae/decoder.py\<close>) is missing from
  the sources. Its interface in the specification is
  \<open>decode(z: tensor[batch, latent_dim]) -> theta: tensor[batch, input_dim]\<close>, values
  strictly within \<open>(0, 1)\<close>.
\<close>

definition decoder_contract :: "(tensor \<Rightarrow> error + tensor) \<Rightarrow> nat \<Rightarrow> nat \<Rightarrow> bool" where
  "decoder_contract dec latent input =
     (\<forall>z. wf_tensor z \<and> ncols z = latent \<longrightarrow>
        (\<exists>theta. dec z = Inr theta \<and> wf_tensor theta \<and> nrows theta = nrows z \<and>
           ncols theta = input \<and>
           (\<forall>i<nrows theta. \<forall>j<input. 0 < entry theta i j \<and> entry theta i j < 1)))"

text \<open>
  Modelled from the spec: the classes \<open>Encoder\<close> and \<open>Decoder\<close> are missing from the
  sources. The specification describes them as ordinary feed-forward transformations
  with no cross-example data dependency: each row of the output is a function of the same
  row of the input.
\<close>

definition encoder_rowwise :: "(tensor \<Rightarrow> error + tensor \<times> tensor) \<Rightarrow> nat \<Rightarrow> nat \<Rightarrow> bool" where
  "encoder_rowwise enc input latent =
     (\<exists>fm fs. (\<forall>r. length (fm r) = latent \<and> length (fs r) = latent) \<and>
        (\<forall>x. wf_tensor x \<and> ncols x = input \<longrightarrow>
           enc x = Inr (\<lparr>ncols = latent, rows = map fm (rows x)\<rparr>,
                        \<lparr>ncols = latent, rows = map fs (rows x)\<rparr>)))"

definition decoder_rowwise :: "(tensor \<Rightarrow> error + tensor) \<Rightarrow> nat \<Rightarrow> nat \<Rightarrow> bool" where
  "decoder_rowwise dec latent input =
     (\<exists>f. (\<forall>r. length (f r) = input) \<and>
        (\<forall>z. wf_tensor z \<and> ncols z = latent \<longrightarrow>
           dec z = Inr \<lparr>ncols = input, rows = map f (rows z)\<rparr>))"

section \<open>Tensor operations on equal shapes\<close>

lemma expand_list_same: "length xs = n \<Longrightarrow> expand_list n xs = xs"
  by (simp add: expand_list_def)

lemma wf_tensor_iff: "wf_tensor t \<longleftrightarrow> (\<forall>r \<in> set (rows t). length r = ncols t)"
  by (simp add: wf_tensor_def list_all_iff)

lemma expand_same:
  assumes "wf_tensor t"
  shows "expand (nrows t) (ncols t) t = t"
proof -
  have "map (expand_list (ncols t)) (rows t) = rows t"
    using assms by (intro map_idI) (simp add: wf_tensor_iff expand_list_same)
  then show ?thesis
    by (simp add: expand_def nrows_def expand_list_same)
qed

lemma bdim_same: "bdim n n = Some n"
  by (simp add: bdim_def)

lemma t_binop_same:
  assumes "wf_tensor a" "wf_tensor b" "same_shape a b"
  shows "t_binop f a b = Inr \<lparr>ncols = ncols a, rows = map2 (map2 f) (rows a) (rows b)\<rparr>"
proof -
  have "expand (nrows a) (ncols a) b = b"
    using expand_same [OF assms(2)] assms(3) by (simp add: same_shape_def)
  then show ?thesis
    using assms(3) expand_same [OF assms(1)]
    by (simp add: t_binop_def same_shape_def bdim_same)
qed

lemma wf_t_map: "wf_tensor t \<Longrightarrow> wf_tensor (t_map f t)"
  by (simp add: wf_tensor_iff t_map_def)

lemma nrows_t_map: "nrows (t_map f t) = nrows t"
  by (simp add: nrows_def t_map_def)

lemma ncols_t_map: "ncols (t_map f t) = ncols t"
  by (simp add: t_map_def)

lemma wf_zipped:
  assumes "wf_tensor a" "wf_tensor b" "same_shape a b"
  shows "wf_tensor (zipped f a b)"
proof -
  have "length (map2 f x y) = ncols a" if "(x, y) \<in> set (zip (rows a) (rows b))" for x y
  proof -
    from that have "x \<in> set (rows a)" "y \<in> set (rows b)"
      by (auto elim: in_set_zipE)
    with assms show ?thesis
      by (simp add: wf_tensor_iff same_shape_def)
  qed
  then show ?thesis
    by (auto simp: wf_tensor_iff zipped_def)
qed

lemma nrows_zipped: "same_shape a b \<Longrightarrow> nrows (zipped f a b) = nrows a"
  by (simp add: zipped_def nrows_def same_shape_def)

lemma entry_zipped:
  assumes "wf_tensor a" "wf_tensor b" "same_shape a b" "i < nrows a" "d < ncols a"
  shows "entry (zipped f a b) i d = f (entry a i d) (entry b i d)"
proof -
  have "length (rows a ! i) = ncols a" "length (rows b ! i) = ncols a"
    using assms by (simp_all add: wf_tensor_iff same_shape_def nrows_def)
  then show ?thesis
    using assms by (simp add: entry_def zipped_def same_shape_def nrows_def)
qed

lemma entry_t_map:
  assumes "wf_tensor a" "i < nrows a" "d < ncols a"
  shows "entry (t_map f a) i d = f (entry a i d)"
  using assms by (simp add: entry_def t_map_def nrows_def wf_tensor_iff)

lemma sum_dim1_nth:
  assumes "wf_tensor a" "i < nrows a"
  shows "sum_dim1 a ! i = (\<Sum>d<ncols a. entry a i d)"
proof -
  have "length (rows a ! i) = ncols a"
    using assms by (simp add: wf_tensor_iff nrows_def)
  then show ?thesis
    using assms by (simp add: sum_dim1_def nrows_def entry_def sum_list_sum_nth atLeast0LessThan)
qed

lemma t_binop_zipped:
  "wf_tensor a \<Longrightarrow> wf_tensor b \<Longrightarrow> same_shape a b \<Longrightarrow> t_binop f a b = Inr (zipped f a b)"
  by (simp add: t_binop_same zipped_def)

lemma ncols_zipped: "ncols (zipped f a b) = ncols a"
  by (simp add: zipped_def)

lemma same_shape_zipped: "same_shape a b \<Longrightarrow> same_shape (zipped f a b) c = same_shape a c"
  by (simp add: same_shape_def nrows_zipped ncols_zipped)

lemma length_sum_dim1: "length (sum_dim1 t) = nrows t"
  by (simp add: sum_dim1_def nrows_def)

lemma kl_terms_props:
  assumes "wf_tensor mu" "wf_tensor logsigma" "same_shape mu logsigma"
  shows "wf_tensor (kl_terms mu logsigma)"
    and "nrows (kl_terms mu logsigma) = nrows mu"
    and "ncols (kl_terms mu logsigma) = ncols mu"
proof -
  let ?a = "t_map (\<lambda>v. 1 + v) (t_map (\<lambda>v. 2 * v) logsigma)"
  let ?b = "t_map (\<lambda>v. v ^ 2) mu"
  let ?c = "t_map exp (t_map (\<lambda>v. 2 * v) logsigma)"
  have ab: "same_shape ?a ?b" and ac: "same_shape ?a ?c"
    using assms(3) by (simp_all add: same_shape_def nrows_t_map ncols_t_map)
  have wab: "wf_tensor (zipped (-) ?a ?b)"
    using assms ab by (intro wf_zipped wf_t_map)
  have "same_shape (zipped (-) ?a ?b) ?c"
    using ab ac by (simp add: same_shape_zipped)
  with wab show "wf_tensor (kl_terms mu logsigma)"
    unfolding kl_terms_def using assms by (intro wf_zipped [OF wab]) (simp_all add: wf_t_map)
  show "nrows (kl_terms mu logsigma) = nrows mu"
    using assms(3) by (simp add: kl_terms_def zipped_def nrows_def t_map_def same_shape_def)
  show "ncols (kl_terms mu logsigma) = ncols mu"
    using assms(3) by (simp add: kl_terms_def zipped_def t_map_def same_shape_def)
qed

lemma kl_divergence_eq:
  assumes "wf_tensor mu" "wf_tensor logsigma" "same_shape mu logsigma"
  shows "kl_divergence mu logsigma = Inr (map (\<lambda>s. - 0.5 * s) (sum_dim1 (kl_terms mu logsigma)))"
proof -
  let ?a = "t_map (\<lambda>v. 1 + v) (t_map (\<lambda>v. 2 * v) logsigma)"
  let ?b = "t_map (\<lambda>v. v ^ 2) mu"
  let ?c = "t_map exp (t_map (\<lambda>v. 2 * v) logsigma)"
  have ab: "same_shape ?a ?b" and ac: "same_shape ?a ?c"
    using assms(3) by (simp_all add: same_shape_def nrows_t_map ncols_t_map)
  have wa: "wf_tensor ?a" and wb: "wf_tensor ?b" and wc: "wf_tensor ?c"
    using assms by (simp_all add: wf_t_map)
  have 1: "t_binop (-) ?a ?b = Inr (zipped (-) ?a ?b)"
    using wa wb ab by (rule t_binop_zipped)
  have "same_shape (zipped (-) ?a ?b) ?c"
    using ab ac by (simp add: same_shape_zipped)
  then have 2: "t_binop (-) (zipped (-) ?a ?b) ?c = Inr (kl_terms mu logsigma)"
    unfolding kl_terms_def using wa wb ab wc by (intro t_binop_zipped wf_zipped)
  have 3: "length (sum_dim1 (kl_terms mu logsigma)) = nrows mu"
    using assms by (simp add: length_sum_dim1 kl_terms_props)
  show ?thesis
    using assms(3) by (simp add: kl_divergence_def 1 2 3)
qed

lemma entry_kl_terms:
  assumes "wf_tensor mu" "wf_tensor logsigma" "same_shape mu logsigma"
    and "i < nrows mu" "d < ncols mu"
  shows "entry (kl_terms mu logsigma) i d =
           1 + 2 * entry logsigma i d - (entry mu i d)\<^sup>2 - exp (2 * entry logsigma i d)"
proof -
  let ?a = "t_map (\<lambda>v. 1 + v) (t_map (\<lambda>v. 2 * v) logsigma)"
  let ?b = "t_map (\<lambda>v. v ^ 2) mu"
  let ?c = "t_map exp (t_map (\<lambda>v. 2 * v) logsigma)"
  have il: "i < nrows logsigma" "d < ncols logsigma"
    using assms by (simp_all add: same_shape_def)
  have ab: "same_shape ?a ?b" and ac: "same_shape ?a ?c"
    using assms(3) by (simp_all add: same_shape_def nrows_t_map ncols_t_map)
  have wa: "wf_tensor ?a" and wb: "wf_tensor ?b" and wc: "wf_tensor ?c"
    using assms by (simp_all add: wf_t_map)
  have ea: "entry ?a i d = 1 + 2 * entry logsigma i d"
    using assms(2) il by (simp add: entry_t_map wf_t_map nrows_t_map ncols_t_map)
  have eb: "entry ?b i d = (entry mu i d)\<^sup>2"
    using assms by (simp add: entry_t_map)
  have ec: "entry ?c i d = exp (2 * entry logsigma i d)"
    using assms(2) il by (simp add: entry_t_map wf_t_map nrows_t_map ncols_t_map)
  have ia: "i < nrows ?a" "d < ncols ?a"
    using il by (simp_all add: nrows_t_map ncols_t_map)
  have e1: "entry (zipped (-) ?a ?b) i d = entry ?a i d - entry ?b i d"
    using wa wb ab ia by (rule entry_zipped)
  have "entry (zipped (-) (zipped (-) ?a ?b) ?c) i d = entry (zipped (-) ?a ?b) i d - entry ?c i d"
  proof (rule entry_zipped)
    show "wf_tensor (zipped (-) ?a ?b)" using wa wb ab by (rule wf_zipped)
    show "wf_tensor ?c" by (rule wc)
    show "same_shape (zipped (-) ?a ?b) ?c" using ab ac by (simp add: same_shape_zipped)
    show "i < nrows (zipped (-) ?a ?b)" using ab ia by (simp add: nrows_zipped)
    show "d < ncols (zipped (-) ?a ?b)" using ia by (simp add: ncols_zipped)
  qed
  then show ?thesis
    by (simp add: kl_terms_def e1 ea eb ec)
qed

lemma kl_divergence_nth:
  assumes "wf_tensor mu" "wf_tensor logsigma" "same_shape mu logsigma"
    and "kl_divergence mu logsigma = Inr kl" "i < nrows mu"
  shows "kl ! i = - 0.5 * (\<Sum>d<ncols mu. 1 + 2 * entry logsigma i d - (entry mu i d)\<^sup>2
                                   - exp (2 * entry logsigma i d))"
proof -
  have kl: "kl = map (\<lambda>s. - 0.5 * s) (sum_dim1 (kl_terms mu logsigma))"
    using assms(4) kl_divergence_eq [OF assms(1-3)] by simp
  have "sum_dim1 (kl_terms mu logsigma) ! i = (\<Sum>d<ncols mu. entry (kl_terms mu logsigma) i d)"
    using sum_dim1_nth [of "kl_terms mu logsigma" i] assms by (simp add: kl_terms_props)
  also have "\<dots> = (\<Sum>d<ncols mu. 1 + 2 * entry logsigma i d - (entry mu i d)\<^sup>2
                                   - exp (2 * entry logsigma i d))"
    using assms by (intro sum.cong refl) (simp add: entry_kl_terms)
  finally show ?thesis
    using assms(5) assms(1-3) by (simp add: kl length_sum_dim1 kl_terms_props)
qed

section \<open>The KL divergence: formula, sign, monotonicity\<close>

text \<open>
  Claim C1. For \<open>mu\<close> and \<open>logsigma\<close> of one shape \<open>(batch_size, latent_dim)\<close>,
  \<open>kl_divergence\<close> returns a vector with one entry per row, and entry \<open>i\<close> is
  \<open>-0.5\<close> times the sum over the latent dimensions \<open>d\<close> of
  \<open>1 + 2 * logsigma[i, d] - mu[i, d]^2 - exp(2 * logsigma[i, d])\<close>.
\<close>

theorem kl_divergence_formula:
  assumes "wf_tensor mu" and "wf_tensor logsigma" and "same_shape mu logsigma"
  shows "\<exists>kl. kl_divergence mu logsigma = Inr kl \<and> length kl = nrows mu \<and>
           (\<forall>i<nrows mu. kl ! i =
              - 0.5 * (\<Sum>d<ncols mu. 1 + 2 * entry logsigma i d - (entry mu i d)\<^sup>2
                                       - exp (2 * entry logsigma i d)))"
proof -
  let ?kl = "map (\<lambda>s. - 0.5 * s) (sum_dim1 (kl_terms mu logsigma))"
  have eq: "kl_divergence mu logsigma = Inr ?kl"
    using assms by (rule kl_divergence_eq)
  have len: "length ?kl = nrows mu"
    using assms by (simp add: length_sum_dim1 kl_terms_props)
  have "?kl ! i = - 0.5 * (\<Sum>d<ncols mu. 1 + 2 * entry logsigma i d - (entry mu i d)\<^sup>2
                                       - exp (2 * entry logsigma i d))"
    if "i < nrows mu" for i
    using assms eq that by (rule kl_divergence_nth)
  with eq len show ?thesis by blast
qed

lemma example_shapes:
  "wf_tensor example_mu" "wf_tensor example_logsigma" "same_shape example_mu example_logsigma"
  "nrows example_mu = 2" "ncols example_mu = 2"
  by (simp_all add: wf_tensor_def same_shape_def nrows_def example_mu_def example_logsigma_def)

lemma lessThan_2_sum: "(\<Sum>d<(2::nat). f d) = f 0 + (f 1 :: real)"
  by (simp add: lessThan_Suc numeral_2_eq_2)

theorem kl_divergence_formula_witness:
  "wf_tensor example_mu \<and> wf_tensor example_logsigma \<and> same_shape example_mu example_logsigma \<and>
   (\<exists>kl. kl_divergence example_mu example_logsigma = Inr kl \<and> length kl = 2 \<and>
      kl ! 0 = 5 / 2 \<and> kl ! 1 = 9 / 2)"
proof -
  obtain kl where kl: "kl_divergence example_mu example_logsigma = Inr kl"
      "length kl = nrows example_mu"
      "\<forall>i<nrows example_mu. kl ! i =
              - 0.5 * (\<Sum>d<ncols example_mu. 1 + 2 * entry example_logsigma i d - (entry example_mu i d)\<^sup>2
                                       - exp (2 * entry example_logsigma i d))"
    using kl_divergence_formula [OF example_shapes(1-3)] by blast
  have n: "0 < nrows example_mu" "1 < nrows example_mu" and c: "ncols example_mu = 2"
    by (simp_all add: example_shapes)
  have "kl ! 0 = 5 / 2" "kl ! 1 = 9 / 2"
    using kl(3) [rule_format, OF n(1)] kl(3) [rule_format, OF n(2)] unfolding c
    by (simp_all add: lessThan_2_sum entry_def example_mu_def example_logsigma_def)
  with kl(1,2) show ?thesis
    by (simp add: example_shapes)
qed

subsection \<open>Float32 rounding at the values used below\<close>

lemma f32_exponent_eq:
  assumes "x \<noteq> 0" "2 powr of_int k \<le> \<bar>x\<bar>" "\<bar>x\<bar> < 2 powr of_int (k + 1)" "- 126 \<le> k"
  shows "f32_exponent x = k"
proof -
  have "\<lfloor>log 2 \<bar>x\<bar>\<rfloor> = k"
    using assms by (subst floor_log_eq_powr_iff) (simp_all add: add.commute)
  with assms(4) show ?thesis by (simp add: f32_exponent_def)
qed

lemma round_f32_zero: "round_f32 0 = Finite 0"
  by (simp add: round_f32_def)

lemma round_f32_finite:
  assumes "x \<noteq> 0" "2 powr of_int k \<le> \<bar>x\<bar>" "\<bar>x\<bar> < 2 powr of_int (k + 1)" "- 126 \<le> k"
    and "round_ties_even (x / 2 powr of_int (k - 23)) = n"
    and "y = of_int n * 2 powr of_int (k - 23)" and "\<bar>y\<bar> < 2 ^ 128"
  shows "round_f32 x = Finite y"
proof -
  have e: "f32_exponent x = k"
    using assms(1-4) by (rule f32_exponent_eq)
  show ?thesis
    using assms(1,7) unfolding round_f32_def e assms(5) Let_def assms(6) [symmetric]
    by simp
qed

lemma round_f32_overflow:
  assumes "0 < x" "2 powr of_int k \<le> \<bar>x\<bar>" "\<bar>x\<bar> < 2 powr of_int (k + 1)" "- 126 \<le> k"
    and "round_ties_even (x / 2 powr of_int (k - 23)) = n"
    and "(y::real) = of_int n * 2 powr of_int (k - 23)" and "2 ^ 128 \<le> \<bar>y\<bar>"
  shows "round_f32 x = PInf"
proof -
  have x: "x \<noteq> 0" using assms(1) by simp
  have e: "f32_exponent x = k"
    using x assms(2-4) by (rule f32_exponent_eq)
  show ?thesis
    using assms(1,7) unfolding round_f32_def e assms(5) Let_def assms(6) [symmetric]
    by simp
qed

lemma round_f32_one: "round_f32 1 = Finite 1"
  by (rule round_f32_finite [where k = 0 and n = "2 ^ 23"])
    (simp_all add: powr_minus round_ties_even_def)

lemma round_f32_below_one_34: "round_f32 (1 - 1 / 2 ^ 34) = Finite 1"
  by (rule round_f32_finite [where k = "- 1" and n = "2 ^ 24"])
    (simp_all add: powr_minus round_ties_even_def)

lemma round_f32_below_one_32: "round_f32 (1 - 1 / 2 ^ 32) = Finite 1"
  by (rule round_f32_finite [where k = "- 1" and n = "2 ^ 24"])
    (simp_all add: powr_minus round_ties_even_def)

lemma round_f32_pow_m34: "round_f32 (1 / 2 ^ 34) = Finite (1 / 2 ^ 34)"
  by (rule round_f32_finite [where k = "- 34" and n = "2 ^ 23"])
    (simp_all add: powr_minus round_ties_even_def)

lemma round_f32_pow_m32: "round_f32 (1 / 2 ^ 32) = Finite (1 / 2 ^ 32)"
  by (rule round_f32_finite [where k = "- 32" and n = "2 ^ 23"])
    (simp_all add: powr_minus round_ties_even_def)

lemma round_f32_pow_128: "round_f32 (2 ^ 128) = PInf"
  by (rule round_f32_overflow [where k = 128 and n = "2 ^ 23" and y = "2 ^ 128"])
    (simp_all add: round_ties_even_def)

lemma round_f32_pow_127: "round_f32 (2 ^ 127) = Finite (2 ^ 127)"
  by (rule round_f32_finite [where k = 127 and n = "2 ^ 23"])
    (simp_all add: round_ties_even_def)

lemma round_f32_pow_m17: "round_f32 (1 / 2 ^ 17) = Finite (1 / 2 ^ 17)"
  by (rule round_f32_finite [where k = "- 17" and n = "2 ^ 23"])
    (simp_all add: powr_minus round_ties_even_def)

lemma round_f32_pow_m16: "round_f32 (1 / 2 ^ 16) = Finite (1 / 2 ^ 16)"
  by (rule round_f32_finite [where k = "- 16" and n = "2 ^ 23"])
    (simp_all add: powr_minus round_ties_even_def)

lemma f32_exp_zero: "f32_exp (Finite 0) = Finite 1"
  by (simp add: round_f32_one)

lemma kl_f32_single:
  "kl_divergence_f32 \<lparr>fcols = 1, frows = [[m]]\<rparr> \<lparr>fcols = 1, frows = [[l]]\<rparr>
     = Inr [f32_mul (Finite (- 0.5))
              (f32_add (Finite 0)
                 (f32_sub (f32_sub (f32_add (Finite 1) (f32_mul (Finite 2) l)) (f32_mul m m))
                          (f32_exp (f32_mul (Finite 2) l))))]"
  by (simp add: kl_divergence_f32_def f_same_shape_def fnrows_def ft_map_def ft_binop_def
      bdim_def f_expand_def expand_list_def fsum_dim1_def)

lemma kl_f32_overflow:
  "kl_divergence_f32 \<lparr>fcols = 1, frows = [[Finite 0]]\<rparr> \<lparr>fcols = 1, frows = [[Finite (2 ^ 127)]]\<rparr>
     = Inr [NaN]"
proof -
  have "f32_mul (Finite 2) (Finite (2 ^ 127)) = PInf"
    using round_f32_pow_128 by simp
  then show ?thesis
    unfolding kl_f32_single by (simp add: f32_sub_def round_f32_zero)
qed

lemma f32_zero_steps:
  "f32_mul (Finite 2) (Finite 0) = Finite 0"
  "f32_add (Finite 1) (Finite 0) = Finite 1"
  "f32_mul (Finite 0) (Finite 0) = Finite 0"
  "f32_sub (Finite 1) (Finite 0) = Finite 1"
  "f32_sub (Finite 1) (Finite 1) = Finite 0"
  "f32_add (Finite 0) (Finite 0) = Finite 0"
  "f32_mul (Finite (- 0.5)) (Finite 0) = Finite 0"
  by (simp_all add: f32_sub_def round_f32_zero round_f32_one)

lemma kl_f32_absorbed_34:
  "kl_divergence_f32 \<lparr>fcols = 1, frows = [[Finite (1 / 2 ^ 17)]]\<rparr> \<lparr>fcols = 1, frows = [[Finite 0]]\<rparr>
     = Inr [Finite 0]"
proof -
  have a: "f32_mul (Finite (1 / 2 ^ 17)) (Finite (1 / 2 ^ 17)) = Finite (1 / 2 ^ 34)"
    using round_f32_pow_m34 by simp
  have b: "f32_sub (Finite 1) (Finite (1 / 2 ^ 34)) = Finite 1"
    using round_f32_below_one_34 by (simp add: f32_sub_def)
  show ?thesis
    unfolding kl_f32_single f32_zero_steps a b f32_exp_zero ..
qed

lemma kl_f32_absorbed_32:
  "kl_divergence_f32 \<lparr>fcols = 1, frows = [[Finite (1 / 2 ^ 16)]]\<rparr> \<lparr>fcols = 1, frows = [[Finite 0]]\<rparr>
     = Inr [Finite 0]"
proof -
  have a: "f32_mul (Finite (1 / 2 ^ 16)) (Finite (1 / 2 ^ 16)) = Finite (1 / 2 ^ 32)"
    using round_f32_pow_m32 by simp
  have b: "f32_sub (Finite 1) (Finite (1 / 2 ^ 32)) = Finite 1"
    using round_f32_below_one_32 by (simp add: f32_sub_def)
  show ?thesis
    unfolding kl_f32_single f32_zero_steps a b f32_exp_zero ..
qed

lemma foldl_f32_add_zeros: "foldl f32_add (Finite 0) (replicate n (Finite 0)) = Finite 0"
  by (induction n) (simp_all add: round_f32_zero)

lemma kl_f32_zeros:
  "kl_divergence_f32 (f_zeros r c) (f_zeros r c) = Inr (replicate r (Finite 0))"
proof -
  let ?row = "\<lambda>v. replicate r (replicate c v)"
  have m: "ft_map f \<lparr>fcols = c, frows = ?row v\<rparr> = \<lparr>fcols = c, frows = ?row (f v)\<rparr>" for f v
    by (simp add: ft_map_def)
  have b: "ft_binop f \<lparr>fcols = c, frows = ?row u\<rparr> \<lparr>fcols = c, frows = ?row v\<rparr>
             = Inr \<lparr>fcols = c, frows = ?row (f u v)\<rparr>" for f u v
    by (simp add: ft_binop_def bdim_def fnrows_def f_expand_def expand_list_def zip_replicate)
  have s: "fsum_dim1 \<lparr>fcols = c, frows = ?row (Finite 0)\<rparr> = replicate r (Finite 0)"
    by (simp add: fsum_dim1_def foldl_f32_add_zeros)
  show ?thesis
    unfolding f_zeros_def kl_divergence_f32_def m b bind_res.simps f32_zero_steps f32_exp_zero s
    by (simp add: f_same_shape_def fnrows_def round_f32_zero)
qed

subsection \<open>Sign\<close>

lemma kl_term_nonpos: "1 + 2 * l - m\<^sup>2 - exp (2 * l) \<le> (0::real)"
proof -
  have "1 + 2 * l \<le> exp (2 * l)"
    using exp_ge_add_one_self [of "2 * l"] by simp
  moreover have "0 \<le> m\<^sup>2" by simp
  ultimately show ?thesis by linarith
qed

lemma kl_divergence_exact_sign:
  assumes "wf_tensor mu" and "wf_tensor logsigma" and "same_shape mu logsigma"
  shows "\<exists>kl. kl_divergence mu logsigma = Inr kl \<and> length kl = nrows mu \<and>
           (\<forall>i<nrows mu. 0 \<le> kl ! i) \<and>
           ((\<forall>i<nrows mu. \<forall>d<ncols mu. entry mu i d = 0 \<and> entry logsigma i d = 0)
              \<longrightarrow> (\<forall>i<nrows mu. kl ! i = 0))"
proof -
  let ?kl = "map (\<lambda>s. - 0.5 * s) (sum_dim1 (kl_terms mu logsigma))"
  let ?t = "\<lambda>i d. 1 + 2 * entry logsigma i d - (entry mu i d)\<^sup>2 - exp (2 * entry logsigma i d)"
  have eq: "kl_divergence mu logsigma = Inr ?kl"
    using assms by (rule kl_divergence_eq)
  have len: "length ?kl = nrows mu"
    using assms by (simp add: length_sum_dim1 kl_terms_props)
  have nth: "?kl ! i = - 0.5 * (\<Sum>d<ncols mu. ?t i d)" if "i < nrows mu" for i
    using assms eq that by (rule kl_divergence_nth)
  have nonneg: "0 \<le> ?kl ! i" if "i < nrows mu" for i
  proof -
    have "(\<Sum>d<ncols mu. ?t i d) \<le> 0"
      by (intro sum_nonpos kl_term_nonpos)
    then show ?thesis
      unfolding nth [OF that] by simp
  qed
  have zero: "?kl ! i = 0"
    if z: "\<forall>i<nrows mu. \<forall>d<ncols mu. entry mu i d = 0 \<and> entry logsigma i d = 0"
      and i: "i < nrows mu" for i
  proof -
    have "(\<Sum>d<ncols mu. ?t i d) = (\<Sum>d<ncols mu. 0)"
      using z i by (intro sum.cong refl) simp
    then show ?thesis
      unfolding nth [OF i] by simp
  qed
  from eq len nonneg zero show ?thesis by blast
qed

text \<open>
  Claim C5 says that every entry of \<open>kl_divergence\<close> is non-negative for all finite
  \<open>mu\<close> and \<open>logsigma\<close>. In float32 it is not: for \<open>mu = 0\<close> and the finite
  \<open>logsigma = 2^127\<close>, \<open>2 * logsigma\<close> overflows to \<open>+inf\<close>, the sum is
  \<open>inf - exp(inf)\<close>, and the result is NaN, which is not at least 0.
\<close>

theorem kl_divergence_f32_overflow_nan:
  "is_f32 (2 ^ 127) \<and>
   kl_divergence_f32 \<lparr>fcols = 1, frows = [[Finite 0]]\<rparr>
                     \<lparr>fcols = 1, frows = [[Finite (2 ^ 127)]]\<rparr> = Inr [NaN] \<and>
   \<not> f32_le (Finite 0) NaN"
  using round_f32_pow_127 kl_f32_overflow by (simp add: is_f32_def)

text \<open>
  Claim C5, amended. In exact real arithmetic every entry of \<open>kl_divergence\<close> is
  non-negative for \<open>mu\<close> and \<open>logsigma\<close> of one shape, and it is exactly 0 in every
  row when every entry of \<open>mu\<close> and \<open>logsigma\<close> is 0; in float32 too, all-zero inputs
  of any shape give exactly 0 in every row.
\<close>

theorem kl_divergence_nonneg:
  assumes "wf_tensor mu" and "wf_tensor logsigma" and "same_shape mu logsigma"
  shows "(\<exists>kl. kl_divergence mu logsigma = Inr kl \<and> length kl = nrows mu \<and>
            (\<forall>i<nrows mu. 0 \<le> kl ! i) \<and>
            ((\<forall>i<nrows mu. \<forall>d<ncols mu. entry mu i d = 0 \<and> entry logsigma i d = 0)
               \<longrightarrow> (\<forall>i<nrows mu. kl ! i = 0))) \<and>
         (\<forall>r c. kl_divergence_f32 (f_zeros r c) (f_zeros r c) = Inr (replicate r (Finite 0)))"
proof
  show "\<exists>kl. kl_divergence mu logsigma = Inr kl \<and> length kl = nrows mu \<and>
            (\<forall>i<nrows mu. 0 \<le> kl ! i) \<and>
            ((\<forall>i<nrows mu. \<forall>d<ncols mu. entry mu i d = 0 \<and> entry logsigma i d = 0)
               \<longrightarrow> (\<forall>i<nrows mu. kl ! i = 0))"
    using assms by (rule kl_divergence_exact_sign)
  show "\<forall>r c. kl_divergence_f32 (f_zeros r c) (f_zeros r c) = Inr (replicate r (Finite 0))"
    by (simp add: kl_f32_zeros)
qed

theorem kl_divergence_nonneg_witness:
  "wf_tensor example_mu \<and> wf_tensor example_logsigma \<and> same_shape example_mu example_logsigma \<and>
   (\<exists>kl. kl_divergence example_mu example_logsigma = Inr kl \<and> 0 \<le> kl ! 0 \<and> 0 \<le> kl ! 1) \<and>
   kl_divergence example_logsigma example_logsigma = Inr [0, 0] \<and>
   kl_divergence_f32 (f_zeros 2 2) (f_zeros 2 2) = Inr [Finite 0, Finite 0]"
proof -
  have z: "wf_tensor example_logsigma" "same_shape example_logsigma example_logsigma"
    "nrows example_logsigma = 2" "ncols example_logsigma = 2"
    by (simp_all add: wf_tensor_def same_shape_def nrows_def example_logsigma_def)
  have n: "0 < nrows example_mu" "1 < nrows example_mu"
    by (simp_all add: example_shapes)
  note t = kl_divergence_nonneg [OF example_shapes(1-3)]
  note u = kl_divergence_nonneg [OF z(1) z(1) z(2)]
  have a: "\<exists>kl. kl_divergence example_mu example_logsigma = Inr kl \<and> 0 \<le> kl ! 0 \<and> 0 \<le> kl ! 1"
    using t n by blast
  obtain kl where kl: "kl_divergence example_logsigma example_logsigma = Inr kl"
    "length kl = nrows example_logsigma"
    "(\<forall>i<nrows example_logsigma. \<forall>d<ncols example_logsigma.
         entry example_logsigma i d = 0 \<and> entry example_logsigma i d = 0)
              \<longrightarrow> (\<forall>i<nrows example_logsigma. kl ! i = 0)"
    using u by blast
  have "\<forall>i<nrows example_logsigma. \<forall>d<ncols example_logsigma. entry example_logsigma i d = 0"
    unfolding z(3,4) by (simp add: entry_def example_logsigma_def less_Suc_eq numeral_2_eq_2)
  with kl(3) have "\<forall>i<nrows example_logsigma. kl ! i = 0" by simp
  then have "kl ! 0 = 0" "kl ! 1 = 0"
    unfolding z(3) by simp_all
  with kl(2) have k: "kl = [0, 0]"
    unfolding z(3) by (cases kl; cases "tl kl") (auto simp: numeral_2_eq_2)
  have "kl_divergence_f32 (f_zeros 2 2) (f_zeros 2 2) = Inr (replicate 2 (Finite 0))"
    using t by blast
  then have f: "kl_divergence_f32 (f_zeros 2 2) (f_zeros 2 2) = Inr [Finite 0, Finite 0]"
    by (simp add: numeral_2_eq_2)
  from kl(1) k a f show ?thesis
    by (simp add: example_shapes)
qed

subsection \<open>Growth with the mean\<close>

lemma wf_set_entry:
  assumes "wf_tensor t"
  shows "wf_tensor (set_entry t i d v)"
proof (cases "i < nrows t")
  case True
  then have "length ((rows t ! i)[d := v]) = ncols t"
    using assms by (simp add: wf_tensor_iff nrows_def)
  moreover have "set ((rows t)[i := (rows t ! i)[d := v]])
                   \<subseteq> insert ((rows t ! i)[d := v]) (set (rows t))"
    by (rule set_update_subset_insert)
  ultimately show ?thesis
    using assms by (auto simp: wf_tensor_iff set_entry_def)
next
  case False
  then have "(rows t)[i := (rows t ! i)[d := v]] = rows t"
    by (intro list_update_beyond) (simp add: nrows_def)
  then show ?thesis
    using assms by (simp add: wf_tensor_iff set_entry_def)
qed

lemma nrows_set_entry: "nrows (set_entry t i d v) = nrows t"
  by (simp add: nrows_def set_entry_def)

lemma ncols_set_entry: "ncols (set_entry t i d v) = ncols t"
  by (simp add: set_entry_def)

lemma entry_set_entry:
  assumes "wf_tensor t" "i < nrows t" "d < ncols t"
  shows "entry (set_entry t i d v) i e = (if e = d then v else entry t i e)"
proof -
  have "length (rows t ! i) = ncols t"
    using assms by (simp add: wf_tensor_iff nrows_def)
  then show ?thesis
    using assms by (simp add: entry_def set_entry_def nrows_def)
qed

lemma kl_divergence_set_entry:
  assumes "wf_tensor mu" and "wf_tensor logsigma" and "same_shape mu logsigma"
    and "i < nrows mu" and "d < ncols mu"
    and "kl_divergence mu logsigma = Inr kl"
    and "kl_divergence (set_entry mu i d v) logsigma = Inr kl'"
  shows "kl' ! i = kl ! i + 0.5 * (v\<^sup>2 - (entry mu i d)\<^sup>2)"
proof -
  let ?mu' = "set_entry mu i d v"
  let ?t = "\<lambda>e. 1 + 2 * entry logsigma i e - (entry mu i e)\<^sup>2 - exp (2 * entry logsigma i e)"
  have w: "wf_tensor ?mu'" and s: "same_shape ?mu' logsigma" and i': "i < nrows ?mu'"
    using assms(1,3,4) by (simp_all add: wf_set_entry same_shape_def nrows_set_entry ncols_set_entry)
  have a: "kl ! i = - 0.5 * (\<Sum>e<ncols mu. ?t e)"
    using assms(1-3,6,4) by (rule kl_divergence_nth)
  have "kl' ! i = - 0.5 * (\<Sum>e<ncols ?mu'. 1 + 2 * entry logsigma i e - (entry ?mu' i e)\<^sup>2
                              - exp (2 * entry logsigma i e))"
    using w assms(2) s assms(7) i' by (rule kl_divergence_nth)
  also have "\<dots> = - 0.5 * (\<Sum>e<ncols mu. ?t e + (if e = d then (entry mu i d)\<^sup>2 - v\<^sup>2 else 0))"
    unfolding ncols_set_entry
    using assms(1,4,5) by (intro arg_cong [where f = "\<lambda>s. - 0.5 * s"] sum.cong refl)
      (simp add: entry_set_entry)
  also have "\<dots> = - 0.5 * ((\<Sum>e<ncols mu. ?t e) + ((entry mu i d)\<^sup>2 - v\<^sup>2))"
    using assms(5) by (simp add: sum.distrib)
  finally show ?thesis
    unfolding a by (simp add: algebra_simps)
qed

text \<open>
  Claim C6 says that doubling a nonzero \<open>mu[i, d]\<close> strictly increases entry \<open>i\<close> of
  \<open>kl_divergence\<close>. In float32 it need not: for \<open>logsigma = 0\<close> and \<open>mu = 2^-17\<close>,
  doubled to \<open>2^-16\<close>, the square of \<open>mu\<close> is lost when it is subtracted from 1,
  and the result is 0 before and after.
\<close>

theorem kl_divergence_f32_doubling_absorbed:
  "is_f32 (1 / 2 ^ 17) \<and>
   f32_mul (Finite 2) (Finite (1 / 2 ^ 17)) = Finite (1 / 2 ^ 16) \<and>
   kl_divergence_f32 \<lparr>fcols = 1, frows = [[Finite (1 / 2 ^ 17)]]\<rparr>
                     \<lparr>fcols = 1, frows = [[Finite 0]]\<rparr> = Inr [Finite 0] \<and>
   kl_divergence_f32 \<lparr>fcols = 1, frows = [[Finite (1 / 2 ^ 16)]]\<rparr>
                     \<lparr>fcols = 1, frows = [[Finite 0]]\<rparr> = Inr [Finite 0] \<and>
   \<not> f32_less (Finite 0) (Finite 0)"
proof -
  have "f32_mul (Finite 2) (Finite (1 / 2 ^ 17)) = Finite (1 / 2 ^ 16)"
    using round_f32_pow_m16 by simp
  then show ?thesis
    using round_f32_pow_m17 kl_f32_absorbed_34 kl_f32_absorbed_32 by (simp add: is_f32_def)
qed

text \<open>
  Claim C6, amended. In exact real arithmetic, for \<open>mu\<close> and \<open>logsigma\<close> of one shape,
  a row \<open>i\<close> and a latent dimension \<open>d\<close> with \<open>mu[i, d]\<close> not zero, replacing
  \<open>mu[i, d]\<close> by \<open>2 * mu[i, d]\<close> and leaving every other entry as it is strictly
  increases entry \<open>i\<close> of \<open>kl_divergence\<close>; more generally so does any replacement
  value with a larger square.
\<close>

theorem kl_divergence_doubling_mu:
  assumes "wf_tensor mu" and "wf_tensor logsigma" and "same_shape mu logsigma"
    and "i < nrows mu" and "d < ncols mu" and "entry mu i d \<noteq> 0"
  shows "(\<exists>kl kl'. kl_divergence mu logsigma = Inr kl \<and>
            kl_divergence (set_entry mu i d (2 * entry mu i d)) logsigma = Inr kl' \<and>
            kl ! i < kl' ! i) \<and>
         (\<forall>v. (entry mu i d)\<^sup>2 < v\<^sup>2 \<longrightarrow>
            (\<exists>kl kl'. kl_divergence mu logsigma = Inr kl \<and>
               kl_divergence (set_entry mu i d v) logsigma = Inr kl' \<and> kl ! i < kl' ! i))"
proof -
  have gen: "\<exists>kl kl'. kl_divergence mu logsigma = Inr kl \<and>
           kl_divergence (set_entry mu i d u) logsigma = Inr kl' \<and> kl ! i < kl' ! i"
    if "(entry mu i d)\<^sup>2 < u\<^sup>2" for u
  proof -
    let ?mu' = "set_entry mu i d u"
    have w: "wf_tensor ?mu'" and s: "same_shape ?mu' logsigma"
      using assms(1,3) by (simp_all add: wf_set_entry same_shape_def nrows_set_entry ncols_set_entry)
    obtain kl where kl: "kl_divergence mu logsigma = Inr kl"
      using kl_divergence_eq [OF assms(1-3)] by blast
    obtain kl' where kl': "kl_divergence ?mu' logsigma = Inr kl'"
      using kl_divergence_eq [OF w assms(2) s] by blast
    have "kl' ! i = kl ! i + 0.5 * (u\<^sup>2 - (entry mu i d)\<^sup>2)"
      using assms(1-5) kl kl' by (rule kl_divergence_set_entry)
    with that have "kl ! i < kl' ! i" by simp
    with kl kl' show ?thesis by blast
  qed
  have "(entry mu i d)\<^sup>2 < (2 * entry mu i d)\<^sup>2"
    using assms(6) by (simp add: power_mult_distrib)
  then have "\<exists>kl kl'. kl_divergence mu logsigma = Inr kl \<and>
           kl_divergence (set_entry mu i d (2 * entry mu i d)) logsigma = Inr kl' \<and>
           kl ! i < kl' ! i"
    by (rule gen)
  with gen show ?thesis by blast
qed

theorem kl_divergence_doubling_mu_witness:
  "wf_tensor example_mu \<and> wf_tensor example_logsigma \<and> same_shape example_mu example_logsigma \<and>
   0 < nrows example_mu \<and> 1 < ncols example_mu \<and> entry example_mu 0 1 = 2 \<and>
   (\<exists>kl kl'. kl_divergence example_mu example_logsigma = Inr kl \<and>
      kl_divergence (set_entry example_mu 0 1 4) example_logsigma = Inr kl' \<and> kl ! 0 < kl' ! 0)"
proof -
  have h: "0 < nrows example_mu" "1 < ncols example_mu"
    by (simp_all add: example_shapes)
  have e: "entry example_mu 0 1 = 2"
    by (simp add: entry_def example_mu_def)
  then have ne: "entry example_mu 0 1 \<noteq> 0" by simp
  have "\<exists>kl kl'. kl_divergence example_mu example_logsigma = Inr kl \<and>
      kl_divergence (set_entry example_mu 0 1 (2 * entry example_mu 0 1)) example_logsigma = Inr kl' \<and>
      kl ! 0 < kl' ! 0"
    using kl_divergence_doubling_mu [OF example_shapes(1-3) h ne] by blast
  then have "\<exists>kl kl'. kl_divergence example_mu example_logsigma = Inr kl \<and>
      kl_divergence (set_entry example_mu 0 1 4) example_logsigma = Inr kl' \<and> kl ! 0 < kl' ! 0"
    unfolding e by simp
  with h e example_shapes(1-3) show ?thesis
    by blast
qed

section \<open>The generator and the reparametrized sample\<close>

lemma draws_length: "draws d n g = (vs, g') \<Longrightarrow> length vs = n"
  by (induction n arbitrary: g vs g') (auto split: prod.splits)

lemma draw_rows_length: "draw_rows d r c g = (rs, g') \<Longrightarrow> length rs = r"
  by (induction r arbitrary: g rs g') (auto split: prod.splits)

lemma draw_rows_row_length:
  "draw_rows d r c g = (rs, g') \<Longrightarrow> row \<in> set rs \<Longrightarrow> length row = c"
proof (induction r arbitrary: g rs g')
  case 0
  then show ?case by simp
next
  case (Suc r)
  obtain row0 g1 where a: "draws d c g = (row0, g1)" by (cases "draws d c g")
  obtain rs1 g2 where b: "draw_rows d r c g1 = (rs1, g2)" by (cases "draw_rows d r c g1")
  have "length row0 = c"
    using a by (rule draws_length)
  moreover have "row \<in> set rs1 \<Longrightarrow> length row = c"
    using b by (rule Suc.IH)
  ultimately show ?case
    using Suc.prems a b by auto
qed

lemma randn_like_props:
  assumes "randn_like R t g = (epsilon, g')"
  shows "wf_tensor epsilon" and "same_shape epsilon t"
proof -
  obtain rs where rs: "draw_rows (next_normal R) (nrows t) (ncols t) g = (rs, g')"
    and e: "epsilon = \<lparr>ncols = ncols t, rows = rs\<rparr>"
    using assms by (auto simp: randn_like_def split: prod.splits)
  show "wf_tensor epsilon"
    using draw_rows_row_length [OF rs] by (simp add: wf_tensor_iff e)
  show "same_shape epsilon t"
    using draw_rows_length [OF rs] by (simp add: same_shape_def nrows_def e)
qed

lemma randn_like_shape_only: "same_shape t t' \<Longrightarrow> randn_like R t g = randn_like R t' g"
  by (simp add: randn_like_def same_shape_def)

lemma reparametrize_eq:
  assumes "wf_tensor mu" "wf_tensor logsigma" "wf_tensor epsilon"
    and "same_shape mu logsigma" "same_shape epsilon mu"
  shows "reparametrize mu logsigma epsilon
           = Inr (zipped (+) mu (zipped (*) epsilon (t_map exp logsigma)))"
proof -
  let ?s = "t_map exp logsigma"
  have ws: "wf_tensor ?s" using assms(2) by (rule wf_t_map)
  have es: "same_shape epsilon ?s"
    using assms(4,5) by (simp add: same_shape_def nrows_t_map ncols_t_map)
  have 1: "t_binop (*) epsilon ?s = Inr (zipped (*) epsilon ?s)"
    using assms(3) ws es by (rule t_binop_zipped)
  have wz: "wf_tensor (zipped (*) epsilon ?s)"
    using assms(3) ws es by (rule wf_zipped)
  have "same_shape mu (zipped (*) epsilon ?s)"
    using assms(5) es by (simp add: same_shape_def nrows_zipped ncols_zipped)
  then have 2: "t_binop (+) mu (zipped (*) epsilon ?s) = Inr (zipped (+) mu (zipped (*) epsilon ?s))"
    using assms(1) wz by (intro t_binop_zipped)
  show ?thesis
    by (simp add: reparametrize_def 1 2)
qed

lemma reparametrized_props:
  assumes "wf_tensor mu" "wf_tensor logsigma" "wf_tensor epsilon"
    and "same_shape mu logsigma" "same_shape epsilon mu"
  defines "z \<equiv> zipped (+) mu (zipped (*) epsilon (t_map exp logsigma))"
  shows "wf_tensor z" and "same_shape z mu"
    and "i < nrows mu \<Longrightarrow> d < ncols mu \<Longrightarrow>
           entry z i d = entry mu i d + entry epsilon i d * exp (entry logsigma i d)"
proof -
  let ?s = "t_map exp logsigma"
  let ?es = "zipped (*) epsilon ?s"
  have ws: "wf_tensor ?s" using assms(2) by (rule wf_t_map)
  have es: "same_shape epsilon ?s"
    using assms(4,5) by (simp add: same_shape_def nrows_t_map ncols_t_map)
  have wz: "wf_tensor ?es"
    using assms(3) ws es by (rule wf_zipped)
  have ms: "same_shape mu ?es"
    using assms(5) es by (simp add: same_shape_def nrows_zipped ncols_zipped)
  show "wf_tensor z"
    unfolding z_def using assms(1) wz ms by (rule wf_zipped)
  show "same_shape z mu"
    unfolding z_def using ms by (simp add: same_shape_def nrows_zipped ncols_zipped)
  show "entry z i d = entry mu i d + entry epsilon i d * exp (entry logsigma i d)"
    if i: "i < nrows mu" and d: "d < ncols mu"
  proof -
    have ie: "i < nrows epsilon" "d < ncols epsilon" and il: "i < nrows logsigma" "d < ncols logsigma"
      using i d assms(4,5) by (simp_all add: same_shape_def)
    have "entry z i d = entry mu i d + entry ?es i d"
      unfolding z_def using assms(1) wz ms i d by (rule entry_zipped)
    also have "entry ?es i d = entry epsilon i d * entry ?s i d"
      using assms(3) ws es ie by (rule entry_zipped)
    also have "entry ?s i d = exp (entry logsigma i d)"
      using assms(2) il by (rule entry_t_map)
    finally show ?thesis .
  qed
qed

lemma sample_with_reparametrization_eq:
  assumes "wf_tensor mu" "wf_tensor logsigma" "same_shape mu logsigma"
    and "randn_like R mu g = (epsilon, g')"
  shows "sample_with_reparametrization R mu logsigma g
           = Inr (zipped (+) mu (zipped (*) epsilon (t_map exp logsigma)), g')"
proof -
  have we: "wf_tensor epsilon" and se: "same_shape epsilon mu"
    using randn_like_props [OF assms(4)] by simp_all
  have "reparametrize mu logsigma epsilon
           = Inr (zipped (+) mu (zipped (*) epsilon (t_map exp logsigma)))"
    using assms(1,2) we assms(3) se by (rule reparametrize_eq)
  moreover have "same_shape (zipped (+) mu (zipped (*) epsilon (t_map exp logsigma))) mu"
    using assms(1,2) we assms(3) se by (rule reparametrized_props)
  ultimately show ?thesis
    using assms(3,4) by (simp add: sample_with_reparametrization_def)
qed

text \<open>
  Claim C3. For \<open>mu\<close> and \<open>logsigma\<close> of one shape, \<open>sample_with_reparametrization\<close>
  returns \<open>z\<close> of that shape with \<open>z[i, d] = mu[i, d] + epsilon[i, d] * exp(logsigma[i, d])\<close>,
  where \<open>epsilon\<close> is the tensor of standard-normal draws that \<open>randn_like\<close> takes from
  the generator: \<open>epsilon\<close> and the generator state left behind depend on the state
  before and on the shape of \<open>mu\<close> only, not on the entries of \<open>mu\<close> and \<open>logsigma\<close>,
  and with \<open>epsilon\<close> fixed \<open>z\<close> is the function \<open>reparametrize\<close> of \<open>mu\<close> and \<open>logsigma\<close>.
\<close>

theorem sample_with_reparametrization_formula:
  assumes "wf_tensor mu" and "wf_tensor logsigma" and "same_shape mu logsigma"
  shows "\<exists>z epsilon g'.
           randn_like R mu g = (epsilon, g') \<and>
           sample_with_reparametrization R mu logsigma g = Inr (z, g') \<and>
           reparametrize mu logsigma epsilon = Inr z \<and>
           wf_tensor z \<and> same_shape z mu \<and> same_shape epsilon mu \<and>
           (\<forall>i<nrows mu. \<forall>d<ncols mu.
              entry z i d = entry mu i d + entry epsilon i d * exp (entry logsigma i d)) \<and>
           (\<forall>mu' logsigma'.
              wf_tensor mu' \<and> wf_tensor logsigma' \<and> same_shape mu' mu \<and> same_shape mu' logsigma' \<longrightarrow>
              (\<exists>z'. sample_with_reparametrization R mu' logsigma' g = Inr (z', g') \<and>
                    reparametrize mu' logsigma' epsilon = Inr z'))"
proof -
  obtain epsilon g' where r: "randn_like R mu g = (epsilon, g')"
    by (cases "randn_like R mu g")
  let ?z = "zipped (+) mu (zipped (*) epsilon (t_map exp logsigma))"
  have we: "wf_tensor epsilon" and se: "same_shape epsilon mu"
    using randn_like_props [OF r] by simp_all
  have 1: "sample_with_reparametrization R mu logsigma g = Inr (?z, g')"
    using assms r by (rule sample_with_reparametrization_eq)
  have 2: "reparametrize mu logsigma epsilon = Inr ?z"
    using assms(1,2) we assms(3) se by (rule reparametrize_eq)
  have 3: "wf_tensor ?z" "same_shape ?z mu"
    using assms(1,2) we assms(3) se by (rule reparametrized_props)+
  have 4: "entry ?z i d = entry mu i d + entry epsilon i d * exp (entry logsigma i d)"
    if "i < nrows mu" "d < ncols mu" for i d
    using assms(1,2) we assms(3) se that by (rule reparametrized_props)
  have 5: "\<exists>z'. sample_with_reparametrization R mu' logsigma' g = Inr (z', g') \<and>
                 reparametrize mu' logsigma' epsilon = Inr z'"
    if h: "wf_tensor mu'" "wf_tensor logsigma'" "same_shape mu' mu" "same_shape mu' logsigma'"
    for mu' logsigma'
  proof -
    have r': "randn_like R mu' g = (epsilon, g')"
      using randn_like_shape_only [OF h(3), of R g] r by simp
    have se': "same_shape epsilon mu'"
      using se h(3) by (simp add: same_shape_def)
    have "sample_with_reparametrization R mu' logsigma' g
            = Inr (zipped (+) mu' (zipped (*) epsilon (t_map exp logsigma')), g')"
      using h(1,2,4) r' by (rule sample_with_reparametrization_eq)
    moreover have "reparametrize mu' logsigma' epsilon
            = Inr (zipped (+) mu' (zipped (*) epsilon (t_map exp logsigma')))"
      using h(1,2) we h(4) se' by (rule reparametrize_eq)
    ultimately show ?thesis by blast
  qed
  from r 1 2 3 4 5 se show ?thesis by blast
qed

lemma example_randn_like:
  "randn_like example_rng example_mu 0 = (\<lparr>ncols = 2, rows = [[0, 1], [2, 3]]\<rparr>, 4)"
  by (simp add: randn_like_def example_rng_def example_mu_def nrows_def numeral_2_eq_2)

lemma example_reparametrize:
  "reparametrize example_mu example_logsigma \<lparr>ncols = 2, rows = [[0, 1], [2, 3]]\<rparr>
     = Inr \<lparr>ncols = 2, rows = [[1, 3], [2, 6]]\<rparr>"
  by (simp add: reparametrize_def t_binop_def t_map_def bdim_def expand_def expand_list_def
      nrows_def example_mu_def example_logsigma_def)

theorem sample_with_reparametrization_formula_witness:
  "wf_tensor example_mu \<and> wf_tensor example_logsigma \<and> same_shape example_mu example_logsigma \<and>
   sample_with_reparametrization example_rng example_mu example_logsigma 0
     = Inr (\<lparr>ncols = 2, rows = [[1, 3], [2, 6]]\<rparr>, 4)"
proof -
  obtain z epsilon g' where
    a: "randn_like example_rng example_mu 0 = (epsilon, g')"
    and b: "sample_with_reparametrization example_rng example_mu example_logsigma 0 = Inr (z, g')"
    and c: "reparametrize example_mu example_logsigma epsilon = Inr z"
    using sample_with_reparametrization_formula [OF example_shapes(1-3), of example_rng 0]
    by blast
  from a have e: "epsilon = \<lparr>ncols = 2, rows = [[0, 1], [2, 3]]\<rparr>" and g: "g' = 4"
    by (simp_all add: example_randn_like)
  from c have "z = \<lparr>ncols = 2, rows = [[1, 3], [2, 6]]\<rparr>"
    unfolding e example_reparametrize by simp
  with b g example_shapes(1-3) show ?thesis
    by simp
qed

section \<open>The evidence lower bound\<close>

lemma v_binop_same: "length u = length v \<Longrightarrow> v_binop f u v = Inr (map2 f u v)"
  by (simp add: v_binop_def bdim_def expand_list_def)

lemma reconstruction_eval:
  assumes "wf_tensor x" and "wf_tensor theta" and "same_shape theta x"
  shows "\<exists>r. reconstruction x theta = Inr r \<and> length r = nrows x \<and>
           (\<forall>i<nrows x. r ! i =
              (\<Sum>j<ncols x. entry x i j * ln (entry theta i j)
                               + (1 - entry x i j) * ln (1 - entry theta i j)))"
proof -
  let ?lt = "t_map ln theta"
  let ?x1 = "t_map (\<lambda>v. 1 - v) x"
  let ?l1 = "t_map ln (t_map (\<lambda>v. 1 - v) theta)"
  let ?a = "zipped (*) x ?lt"
  let ?b = "zipped (*) ?x1 ?l1"
  let ?c = "zipped (+) ?a ?b"
  have w: "wf_tensor ?lt" "wf_tensor ?x1" "wf_tensor ?l1"
    using assms(1,2) by (simp_all add: wf_t_map)
  have s: "same_shape x ?lt" "same_shape ?x1 ?l1"
    using assms(3) by (simp_all add: same_shape_def nrows_t_map ncols_t_map)
  have wa: "wf_tensor ?a" using assms(1) w(1) s(1) by (rule wf_zipped)
  have wb: "wf_tensor ?b" using w(2,3) s(2) by (rule wf_zipped)
  have sab: "same_shape ?a ?b"
    using s by (simp add: same_shape_def nrows_zipped ncols_zipped nrows_t_map ncols_t_map)
  have 1: "t_binop (*) x ?lt = Inr ?a" using assms(1) w(1) s(1) by (rule t_binop_zipped)
  have 2: "t_binop (*) ?x1 ?l1 = Inr ?b" using w(2,3) s(2) by (rule t_binop_zipped)
  have 3: "t_binop (+) ?a ?b = Inr ?c" using wa wb sab by (rule t_binop_zipped)
  have eq: "reconstruction x theta = Inr (sum_dim1 ?c)"
    by (simp add: reconstruction_def 1 2 3)
  have wc: "wf_tensor ?c" using wa wb sab by (rule wf_zipped)
  have nc: "nrows ?c = nrows x" "ncols ?c = ncols x"
    using s sab by (simp_all add: nrows_zipped ncols_zipped)
  have len: "length (sum_dim1 ?c) = nrows x"
    by (simp add: length_sum_dim1 nc)
  have nth: "sum_dim1 ?c ! i = (\<Sum>j<ncols x. entry x i j * ln (entry theta i j)
                               + (1 - entry x i j) * ln (1 - entry theta i j))"
    if i: "i < nrows x" for i
  proof -
    have it: "i < nrows theta" using i assms(3) by (simp add: same_shape_def)
    have "sum_dim1 ?c ! i = (\<Sum>j<ncols x. entry ?c i j)"
      using sum_dim1_nth [OF wc] i by (simp add: nc)
    also have "\<dots> = (\<Sum>j<ncols x. entry x i j * ln (entry theta i j)
                               + (1 - entry x i j) * ln (1 - entry theta i j))"
    proof (intro sum.cong refl)
      fix j assume "j \<in> {..<ncols x}"
      then have j: "j < ncols x" by simp
      then have jt: "j < ncols theta" using assms(3) by (simp add: same_shape_def)
      have ia: "i < nrows ?a" "j < ncols ?a"
        using i j s(1) by (simp_all add: nrows_zipped ncols_zipped)
      have ix1: "i < nrows ?x1" "j < ncols ?x1"
        using i j by (simp_all add: nrows_t_map ncols_t_map)
      have it1: "i < nrows (t_map (\<lambda>v. 1 - v) theta)" "j < ncols (t_map (\<lambda>v. 1 - v) theta)"
        using it jt by (simp_all add: nrows_t_map ncols_t_map)
      have "entry ?c i j = entry ?a i j + entry ?b i j"
        using wa wb sab ia by (rule entry_zipped)
      also have "entry ?a i j = entry x i j * entry ?lt i j"
        using assms(1) w(1) s(1) i j by (rule entry_zipped)
      also have "entry ?lt i j = ln (entry theta i j)"
        using assms(2) it jt by (rule entry_t_map)
      also have "entry ?b i j = entry ?x1 i j * entry ?l1 i j"
        using w(2,3) s(2) ix1 by (rule entry_zipped)
      also have "entry ?x1 i j = 1 - entry x i j"
        using assms(1) i j by (rule entry_t_map)
      also have "entry ?l1 i j = ln (entry (t_map (\<lambda>v. 1 - v) theta) i j)"
        using wf_t_map [OF assms(2)] it1 by (rule entry_t_map)
      also have "entry (t_map (\<lambda>v. 1 - v) theta) i j = 1 - entry theta i j"
        using assms(2) it jt by (rule entry_t_map)
      finally show "entry ?c i j = entry x i j * ln (entry theta i j)
                               + (1 - entry x i j) * ln (1 - entry theta i j)" .
    qed
    finally show ?thesis .
  qed
  from eq len nth show ?thesis by blast
qed

lemma sample_with_reparametrization_same_shape:
  "sample_with_reparametrization R mu logsigma g = Inr r \<Longrightarrow> same_shape mu logsigma"
  by (simp add: sample_with_reparametrization_def split: if_splits)

lemma elbo_eval:
  assumes "wf_tensor x"
    and "encoder M x = Inr (mu, logsigma)"
    and "wf_tensor mu" and "wf_tensor logsigma" and "nrows mu = nrows x"
    and "sample_with_reparametrization R mu logsigma g = Inr (z, g')"
    and "decoder M z = Inr theta"
    and "wf_tensor theta" and "same_shape theta x"
  shows "\<exists>kl out. kl_divergence mu logsigma = Inr kl \<and>
           elbo R M x g = Inr (out, g') \<and> length out = nrows x \<and>
           (\<forall>i<nrows x. out ! i =
              (\<Sum>j<ncols x. entry x i j * ln (entry theta i j)
                               + (1 - entry x i j) * ln (1 - entry theta i j)) - kl ! i)"
proof -
  have ss: "same_shape mu logsigma"
    using assms(6) by (rule sample_with_reparametrization_same_shape)
  obtain r where r: "reconstruction x theta = Inr r" "length r = nrows x"
    "\<forall>i<nrows x. r ! i =
              (\<Sum>j<ncols x. entry x i j * ln (entry theta i j)
                               + (1 - entry x i j) * ln (1 - entry theta i j))"
    using reconstruction_eval [OF assms(1,8,9)] by blast
  define kl where "kl = map (\<lambda>s. - 0.5 * s) (sum_dim1 (kl_terms mu logsigma))"
  have kl: "kl_divergence mu logsigma = Inr kl"
    unfolding kl_def using assms(3,4) ss by (rule kl_divergence_eq)
  have lkl: "length kl = nrows x"
    using assms(3,4,5) ss by (simp add: kl_def length_sum_dim1 kl_terms_props)
  have v: "v_binop (-) r kl = Inr (map2 (-) r kl)"
    using r(2) lkl by (intro v_binop_same) simp
  have len: "length (map2 (-) r kl) = nrows x"
    using r(2) lkl by simp
  have eq: "elbo R M x g = Inr (map2 (-) r kl, g')"
    using len by (simp add: elbo_def assms(2,6,7) r(1) kl v)
  have "map2 (-) r kl ! i = (\<Sum>j<ncols x. entry x i j * ln (entry theta i j)
                               + (1 - entry x i j) * ln (1 - entry theta i j)) - kl ! i"
    if "i < nrows x" for i
    using that r(2,3) lkl by simp
  with kl eq len show ?thesis by blast
qed

text \<open>
  Claim C2. For an observation batch \<open>x\<close> of shape \<open>(batch_size, input_dim)\<close>, \<open>elbo\<close>
  takes \<open>(mu, logsigma)\<close> from the encoder, \<open>z\<close> from
  \<open>sample_with_reparametrization mu logsigma\<close>, \<open>theta\<close> from the decoder applied to
  \<open>z\<close>, and returns one entry per row: the sum over the input dimensions of
  \<open>x * log(theta) + (1 - x) * log(1 - theta)\<close> minus the row's entry of
  \<open>kl_divergence mu logsigma\<close>. The encoder and the decoder return tensors of the
  shapes of their interfaces.
\<close>

theorem elbo_computation:
  assumes "wf_tensor x"
    and "encoder M x = Inr (mu, logsigma)"
    and "wf_tensor mu" and "wf_tensor logsigma" and "nrows mu = nrows x"
    and "sample_with_reparametrization R mu logsigma g = Inr (z, g')"
    and "decoder M z = Inr theta"
    and "wf_tensor theta" and "same_shape theta x"
  shows "\<exists>kl out. kl_divergence mu logsigma = Inr kl \<and>
           elbo R M x g = Inr (out, g') \<and> length out = nrows x \<and>
           (\<forall>i<nrows x. out ! i =
              (\<Sum>j<ncols x. entry x i j * ln (entry theta i j)
                               + (1 - entry x i j) * ln (1 - entry theta i j)) - kl ! i)"
  using assms by (rule elbo_eval)

lemma example_x_shape: "wf_tensor example_x" "nrows example_x = 3" "ncols example_x = 4"
  by (simp_all add: wf_tensor_def nrows_def example_x_def)

lemma example_encoder:
  "encoder example_vae example_x
     = Inr (\<lparr>ncols = 2, rows = [[2, 0], [0, 0], [4, 0]]\<rparr>,
            \<lparr>ncols = 2, rows = [[0, 0], [0, 0], [0, 0]]\<rparr>)"
  by (simp add: example_vae_def example_x_def)

lemma example_sample_with_reparametrization:
  "sample_with_reparametrization example_rng
       \<lparr>ncols = 2, rows = [[2, 0], [0, 0], [4, 0]]\<rparr>
       \<lparr>ncols = 2, rows = [[0, 0], [0, 0], [0, 0]]\<rparr> 0
     = Inr (\<lparr>ncols = 2, rows = [[2, 1], [2, 3], [8, 5]]\<rparr>, 6)"
  by (simp add: sample_with_reparametrization_def randn_like_def reparametrize_def
      t_binop_def t_map_def bdim_def expand_def expand_list_def same_shape_def nrows_def
      example_rng_def numeral_2_eq_2 numeral_3_eq_3)

lemma example_decoder:
  "decoder example_vae \<lparr>ncols = 2, rows = [[2, 1], [2, 3], [8, 5]]\<rparr>
     = Inr \<lparr>ncols = 4, rows = [[1 / 2, 1 / 2, 1 / 2, 1 / 2], [1 / 2, 1 / 2, 1 / 2, 1 / 2],
                                [1 / 2, 1 / 2, 1 / 2, 1 / 2]]\<rparr>"
  by (simp add: example_vae_def)

lemma example_kl_divergence:
  "kl_divergence \<lparr>ncols = 2, rows = [[2, 0], [0, 0], [4, 0]]\<rparr>
                 \<lparr>ncols = 2, rows = [[0, 0], [0, 0], [0, 0]]\<rparr> = Inr [2, 0, 8]"
  by (simp add: kl_divergence_def t_binop_def t_map_def bdim_def expand_def expand_list_def
      same_shape_def nrows_def sum_dim1_def)

lemma lessThan_4_sum: "(\<Sum>j<(4::nat). f j) = f 0 + f 1 + f 2 + (f 3 :: real)"
  by (simp add: lessThan_Suc eval_nat_numeral)

theorem elbo_computation_witness:
  "wf_tensor example_x \<and>
   encoder example_vae example_x
     = Inr (\<lparr>ncols = 2, rows = [[2, 0], [0, 0], [4, 0]]\<rparr>,
            \<lparr>ncols = 2, rows = [[0, 0], [0, 0], [0, 0]]\<rparr>) \<and>
   sample_with_reparametrization example_rng
       \<lparr>ncols = 2, rows = [[2, 0], [0, 0], [4, 0]]\<rparr>
       \<lparr>ncols = 2, rows = [[0, 0], [0, 0], [0, 0]]\<rparr> 0
     = Inr (\<lparr>ncols = 2, rows = [[2, 1], [2, 3], [8, 5]]\<rparr>, 6) \<and>
   decoder example_vae \<lparr>ncols = 2, rows = [[2, 1], [2, 3], [8, 5]]\<rparr>
     = Inr \<lparr>ncols = 4, rows = [[1 / 2, 1 / 2, 1 / 2, 1 / 2], [1 / 2, 1 / 2, 1 / 2, 1 / 2],
                                [1 / 2, 1 / 2, 1 / 2, 1 / 2]]\<rparr> \<and>
   (\<exists>out. elbo example_rng example_vae example_x 0 = Inr (out, 6) \<and> length out = 3 \<and>
      out ! 0 = 4 * ln (1 / 2) - 2 \<and> out ! 1 = 4 * ln (1 / 2) \<and> out ! 2 = 4 * ln (1 / 2) - 8)"
proof -
  let ?mu = "\<lparr>ncols = 2, rows = [[2, 0], [0, 0], [4, 0 :: real]]\<rparr>"
  let ?ls = "\<lparr>ncols = 2, rows = [[0, 0], [0, 0], [0, 0 :: real]]\<rparr>"
  let ?th = "\<lparr>ncols = 4, rows = [[1 / 2, 1 / 2, 1 / 2, 1 / 2], [1 / 2, 1 / 2, 1 / 2, 1 / 2],
                                [1 / 2, 1 / 2, 1 / 2, 1 / 2 :: real]]\<rparr>"
  have w: "wf_tensor ?mu" "wf_tensor ?ls" "nrows ?mu = nrows example_x"
    "wf_tensor ?th" "same_shape ?th example_x"
    by (simp_all add: wf_tensor_def same_shape_def nrows_def example_x_def)
  obtain kl out where kl: "kl_divergence ?mu ?ls = Inr kl"
    and out: "elbo example_rng example_vae example_x 0 = Inr (out, 6)"
      "length out = nrows example_x"
    and nth: "\<forall>i<nrows example_x. out ! i =
              (\<Sum>j<ncols example_x. entry example_x i j * ln (entry ?th i j)
                               + (1 - entry example_x i j) * ln (1 - entry ?th i j)) - kl ! i"
    using elbo_computation [OF example_x_shape(1) example_encoder w(1-3)
        example_sample_with_reparametrization example_decoder w(4,5)]
    by blast
  have klv: "kl = [2, 0, 8]"
    using kl by (simp add: example_kl_divergence)
  have n: "0 < nrows example_x" "1 < nrows example_x" "2 < nrows example_x"
    by (simp_all add: example_x_shape)
  have "out ! 0 = 4 * ln (1 / 2) - 2" "out ! 1 = 4 * ln (1 / 2)" "out ! 2 = 4 * ln (1 / 2) - 8"
    using nth [rule_format, OF n(1)] nth [rule_format, OF n(2)] nth [rule_format, OF n(3)]
    unfolding example_x_shape(3) lessThan_4_sum klv
    by (simp_all add: entry_def example_x_def)
  with out example_x_shape example_encoder example_sample_with_reparametrization example_decoder
  show ?thesis
    by simp
qed

section \<open>Randomness and the batch dimension\<close>

lemma bind_res_eq_Inr: "bind_res m f = Inr r \<longleftrightarrow> (\<exists>v. m = Inr v \<and> f v = Inr r)"
  by (cases m) simp_all

lemma bind_res_value_cong:
  assumes "\<And>v. m = Inr v \<Longrightarrow> map_sum id fst (f v) = map_sum id fst (f' v)"
  shows "map_sum id fst (bind_res m f) = map_sum id fst (bind_res m f')"
  using assms by (cases m) simp_all

lemma sample_with_reparametrization_noise:
  assumes "fst (randn_like R mu g) = fst (randn_like R' mu h)"
  shows "(\<exists>e. sample_with_reparametrization R mu logsigma g = Inl e \<and>
              sample_with_reparametrization R' mu logsigma h = Inl e) \<or>
         (\<exists>z g1 h1. sample_with_reparametrization R mu logsigma g = Inr (z, g1) \<and>
              sample_with_reparametrization R' mu logsigma h = Inr (z, h1))"
proof -
  obtain epsilon g1 where a: "randn_like R mu g = (epsilon, g1)"
    by (cases "randn_like R mu g")
  obtain h1 where b: "randn_like R' mu h = (epsilon, h1)"
    using assms a by (cases "randn_like R' mu h") simp
  show ?thesis
    by (cases "reparametrize mu logsigma epsilon")
      (simp_all add: sample_with_reparametrization_def a b)
qed

lemma sample_with_reparametrization_state:
  "sample_with_reparametrization R mu logsigma g = Inr (z, g') \<Longrightarrow> g' = snd (randn_like R mu g)"
  by (auto simp: sample_with_reparametrization_def bind_res_eq_Inr split: if_splits prod.splits)

lemma elbo_state:
  assumes "elbo R M x g = Inr (out, g')" and "encoder M x = Inr (mu, logsigma)"
  shows "g' = snd (randn_like R mu g)"
proof -
  obtain z g1 where "sample_with_reparametrization R mu logsigma g = Inr (z, g1)" and "g' = g1"
    using assms by (auto simp: elbo_def bind_res_eq_Inr split: if_splits)
  then show ?thesis
    by (simp add: sample_with_reparametrization_state)
qed

text \<open>
  Claim C8. The generator enters \<open>elbo\<close> only through the noise that
  \<open>sample_with_reparametrization\<close> draws with \<open>randn_like\<close>: two calls on the same \<open>x\<close>,
  from generator states (of any two generators) that give the same noise tensor, return
  the same values or raise the same error, and a call that returns leaves the generator
  in the state after that one draw. Two calls from the same state of the same generator
  are the special case of identical noise.
\<close>

theorem elbo_noise_only_randomness:
  "((\<forall>mu logsigma. encoder M x = Inr (mu, logsigma) \<longrightarrow>
        fst (randn_like R mu g) = fst (randn_like R' mu h))
      \<longrightarrow> map_sum id fst (elbo R M x g) = map_sum id fst (elbo R' M x h)) \<and>
   (\<forall>mu logsigma out g'. encoder M x = Inr (mu, logsigma) \<and> elbo R M x g = Inr (out, g')
      \<longrightarrow> g' = snd (randn_like R mu g))"
proof (intro conjI impI allI)
  assume same: "\<forall>mu logsigma. encoder M x = Inr (mu, logsigma) \<longrightarrow>
        fst (randn_like R mu g) = fst (randn_like R' mu h)"
  show "map_sum id fst (elbo R M x g) = map_sum id fst (elbo R' M x h)"
  proof (cases "encoder M x")
    case (Inl e)
    then show ?thesis by (simp add: elbo_def)
  next
    case (Inr p)
    obtain mu logsigma where p: "p = (mu, logsigma)" by (cases p)
    have noise: "fst (randn_like R mu g) = fst (randn_like R' mu h)"
      using same Inr p by simp
    let ?rest = "\<lambda>z s. bind_res (decoder M z) (\<lambda>theta.
       bind_res (reconstruction x theta) (\<lambda>reconstruction_loss.
       bind_res (kl_divergence mu logsigma) (\<lambda>kl.
       bind_res (v_binop (-) reconstruction_loss kl) (\<lambda>elbo_mc.
       if length elbo_mc = nrows x then Inr (elbo_mc, s) else Inl ShapeTypeError))))"
    have rest: "map_sum id fst (?rest z s) = map_sum id fst (?rest z t)" for z and s :: 'a and t :: 'b
      by (intro bind_res_value_cong) simp
    from sample_with_reparametrization_noise [OF noise, of logsigma]
    show ?thesis
    proof (elim disjE exE conjE)
      fix e
      assume "sample_with_reparametrization R mu logsigma g = Inl e"
        and "sample_with_reparametrization R' mu logsigma h = Inl e"
      then show ?thesis by (simp add: elbo_def Inr p)
    next
      fix z g1 h1
      assume "sample_with_reparametrization R mu logsigma g = Inr (z, g1)"
        and "sample_with_reparametrization R' mu logsigma h = Inr (z, h1)"
      then show ?thesis
        using rest [of z g1 h1] by (simp add: elbo_def Inr p)
    qed
  qed
next
  fix mu logsigma out g'
  assume "encoder M x = Inr (mu, logsigma) \<and> elbo R M x g = Inr (out, g')"
  then have a: "elbo R M x g = Inr (out, g')" and b: "encoder M x = Inr (mu, logsigma)"
    by simp_all
  from a b show "g' = snd (randn_like R mu g)"
    by (rule elbo_state)
qed

lemma example_noise_shifted:
  "fst (randn_like example_rng \<lparr>ncols = 2, rows = [[2, 0], [0, 0], [4, 0]]\<rparr> 0)
     = fst (randn_like example_rng_shifted \<lparr>ncols = 2, rows = [[2, 0], [0, 0], [4, 0]]\<rparr> 10)"
  by (simp add: randn_like_def example_rng_def example_rng_shifted_def nrows_def
      numeral_2_eq_2 numeral_3_eq_3)

lemma example_elbo_returns: "\<exists>out. elbo example_rng example_vae example_x 0 = Inr (out, 6)"
proof -
  let ?mu = "\<lparr>ncols = 2, rows = [[2, 0], [0, 0], [4, 0 :: real]]\<rparr>"
  let ?ls = "\<lparr>ncols = 2, rows = [[0, 0], [0, 0], [0, 0 :: real]]\<rparr>"
  let ?th = "\<lparr>ncols = 4, rows = [[1 / 2, 1 / 2, 1 / 2, 1 / 2], [1 / 2, 1 / 2, 1 / 2, 1 / 2],
                                [1 / 2, 1 / 2, 1 / 2, 1 / 2 :: real]]\<rparr>"
  have w: "wf_tensor ?mu" "wf_tensor ?ls" "nrows ?mu = nrows example_x"
    "wf_tensor ?th" "same_shape ?th example_x"
    by (simp_all add: wf_tensor_def same_shape_def nrows_def example_x_def)
  show ?thesis
    using elbo_eval [OF example_x_shape(1) example_encoder w(1-3)
        example_sample_with_reparametrization example_decoder w(4,5)]
    by blast
qed

theorem elbo_noise_only_randomness_witness:
  "encoder example_vae example_x
     = Inr (\<lparr>ncols = 2, rows = [[2, 0], [0, 0], [4, 0]]\<rparr>,
            \<lparr>ncols = 2, rows = [[0, 0], [0, 0], [0, 0]]\<rparr>) \<and>
   fst (randn_like example_rng \<lparr>ncols = 2, rows = [[2, 0], [0, 0], [4, 0]]\<rparr> 0)
     = fst (randn_like example_rng_shifted \<lparr>ncols = 2, rows = [[2, 0], [0, 0], [4, 0]]\<rparr> 10) \<and>
   map_sum id fst (elbo example_rng example_vae example_x 0)
     = map_sum id fst (elbo example_rng_shifted example_vae example_x 10) \<and>
   (\<exists>out. elbo example_rng example_vae example_x 0 = Inr (out, 6)) \<and>
   snd (randn_like example_rng \<lparr>ncols = 2, rows = [[2, 0], [0, 0], [4, 0]]\<rparr> 0) = 6"
proof -
  have h: "\<forall>mu logsigma. encoder example_vae example_x = Inr (mu, logsigma) \<longrightarrow>
        fst (randn_like example_rng mu 0) = fst (randn_like example_rng_shifted mu 10)"
    using example_noise_shifted by (simp add: example_encoder)
  note t = elbo_noise_only_randomness [of example_vae example_x example_rng 0 example_rng_shifted 10]
  from t h have eq: "map_sum id fst (elbo example_rng example_vae example_x 0)
     = map_sum id fst (elbo example_rng_shifted example_vae example_x 10)"
    by blast
  obtain out where out: "elbo example_rng example_vae example_x 0 = Inr (out, 6)"
    using example_elbo_returns by blast
  from t example_encoder out
  have "6 = snd (randn_like example_rng \<lparr>ncols = 2, rows = [[2, 0], [0, 0], [4, 0]]\<rparr> 0)"
    by blast
  with example_encoder example_noise_shifted eq out show ?thesis
    by auto
qed

lemma wf_row_length: "wf_tensor t \<Longrightarrow> i < nrows t \<Longrightarrow> length (rows t ! i) = ncols t"
  by (simp add: wf_tensor_iff nrows_def)

lemma rows_zipped_nth:
  assumes "i < nrows a" "i < nrows b"
  shows "rows (zipped f a b) ! i = map2 f (rows a ! i) (rows b ! i)"
  using assms by (simp add: zipped_def nrows_def)

lemma rows_t_map_nth: "i < nrows a \<Longrightarrow> rows (t_map f a) ! i = map f (rows a ! i)"
  by (simp add: t_map_def nrows_def)

lemma kl_divergence_row_local:
  assumes "wf_tensor mu" "wf_tensor logsigma" "same_shape mu logsigma"
    and "wf_tensor mu'" "wf_tensor logsigma'" "same_shape mu' logsigma'"
    and "i < nrows mu" "i' < nrows mu'"
    and "rows mu ! i = rows mu' ! i'" "rows logsigma ! i = rows logsigma' ! i'"
    and "kl_divergence mu logsigma = Inr kl" "kl_divergence mu' logsigma' = Inr kl'"
  shows "kl ! i = kl' ! i'"
proof -
  have c: "ncols mu = ncols mu'"
    using wf_row_length [OF assms(1,7)] wf_row_length [OF assms(4,8)] assms(9) by simp
  have "kl ! i = - 0.5 * (\<Sum>d<ncols mu. 1 + 2 * entry logsigma i d - (entry mu i d)\<^sup>2
                                   - exp (2 * entry logsigma i d))"
    using assms(1-3,11,7) by (rule kl_divergence_nth)
  also have "\<dots> = - 0.5 * (\<Sum>d<ncols mu'. 1 + 2 * entry logsigma' i' d - (entry mu' i' d)\<^sup>2
                                   - exp (2 * entry logsigma' i' d))"
    unfolding c entry_def assms(9,10) ..
  also have "\<dots> = kl' ! i'"
    using assms(4-6,12,8) by (rule kl_divergence_nth [symmetric])
  finally show ?thesis .
qed

lemma elbo_rowwise_eval:
  assumes enc: "\<forall>r. length (fm r) = latent \<and> length (fs r) = latent"
      "\<forall>x. wf_tensor x \<and> ncols x = input \<longrightarrow>
           encoder M x = Inr (\<lparr>ncols = latent, rows = map fm (rows x)\<rparr>,
                              \<lparr>ncols = latent, rows = map fs (rows x)\<rparr>)"
    and dec: "\<forall>r. length (fd r) = input"
      "\<forall>z. wf_tensor z \<and> ncols z = latent \<longrightarrow>
           decoder M z = Inr \<lparr>ncols = input, rows = map fd (rows z)\<rparr>"
    and x: "wf_tensor x" "ncols x = input"
    and noise: "randn_like R \<lparr>ncols = latent, rows = replicate (nrows x) []\<rparr> g = (epsilon, g')"
    and i: "i < nrows x"
  shows "\<exists>out kl theta. elbo R M x g = Inr (out, g') \<and>
           kl_divergence \<lparr>ncols = latent, rows = [fm (rows x ! i)]\<rparr>
                         \<lparr>ncols = latent, rows = [fs (rows x ! i)]\<rparr> = Inr [kl] \<and>
           theta = fd (map2 (+) (fm (rows x ! i))
                      (map2 (*) (rows epsilon ! i) (map exp (fs (rows x ! i))))) \<and>
           out ! i = (\<Sum>j<input. rows x ! i ! j * ln (theta ! j)
                               + (1 - rows x ! i ! j) * ln (1 - theta ! j)) - kl"
proof -
  let ?mu = "\<lparr>ncols = latent, rows = map fm (rows x)\<rparr>"
  let ?ls = "\<lparr>ncols = latent, rows = map fs (rows x)\<rparr>"
  let ?mu1 = "\<lparr>ncols = latent, rows = [fm (rows x ! i)]\<rparr>"
  let ?ls1 = "\<lparr>ncols = latent, rows = [fs (rows x ! i)]\<rparr>"
  let ?z = "zipped (+) ?mu (zipped (*) epsilon (t_map exp ?ls))"
  let ?th = "\<lparr>ncols = input, rows = map fd (rows ?z)\<rparr>"
  have e: "encoder M x = Inr (?mu, ?ls)"
    using enc(2) x by simp
  have w: "wf_tensor ?mu" "wf_tensor ?ls" "same_shape ?mu ?ls" "nrows ?mu = nrows x"
    using enc(1) by (simp_all add: wf_tensor_iff same_shape_def nrows_def)
  have w1: "wf_tensor ?mu1" "wf_tensor ?ls1" "same_shape ?mu1 ?ls1" "0 < nrows ?mu1" "i < nrows ?mu"
    using enc(1) i by (simp_all add: wf_tensor_iff same_shape_def nrows_def)
  have r: "randn_like R ?mu g = (epsilon, g')"
    using noise by (simp add: randn_like_def nrows_def)
  have we: "wf_tensor epsilon" and se: "same_shape epsilon ?mu"
    using randn_like_props [OF r] by simp_all
  have s: "sample_with_reparametrization R ?mu ?ls g = Inr (?z, g')"
    using w(1-3) r by (rule sample_with_reparametrization_eq)
  have wz: "wf_tensor ?z" and sz: "same_shape ?z ?mu"
    using w(1,2) we w(3) se by (rule reparametrized_props)+
  have d: "decoder M ?z = Inr ?th"
    using dec(2) wz sz by (simp add: same_shape_def)
  have wt: "wf_tensor ?th" and st: "same_shape ?th x"
    using dec(1) sz w(4) x(2) by (simp_all add: wf_tensor_iff same_shape_def nrows_def)
  obtain kl out where kl: "kl_divergence ?mu ?ls = Inr kl"
    and out: "elbo R M x g = Inr (out, g')"
    and nth: "\<forall>i<nrows x. out ! i =
              (\<Sum>j<ncols x. entry x i j * ln (entry ?th i j)
                               + (1 - entry x i j) * ln (1 - entry ?th i j)) - kl ! i"
    using elbo_eval [OF x(1) e w(1,2,4) s d wt st] by blast
  obtain kl1 where kl1: "kl_divergence ?mu1 ?ls1 = Inr kl1" and l1: "length kl1 = nrows ?mu1"
    using kl_divergence_eq [OF w1(1-3)] w1(1-3) by (simp add: length_sum_dim1 kl_terms_props)
  have rw: "rows ?mu1 ! 0 = rows ?mu ! i" "rows ?ls1 ! 0 = rows ?ls ! i"
    using i by (simp_all add: nrows_def)
  have "kl1 ! 0 = kl ! i"
    using w1(1-3) w(1-3) w1(4,5) rw kl1 kl by (rule kl_divergence_row_local)
  moreover have "kl1 = [kl1 ! 0]"
    using l1 by (cases kl1) (simp_all add: nrows_def)
  ultimately have k: "kl_divergence ?mu1 ?ls1 = Inr [kl ! i]"
    using kl1 by simp
  have ie: "i < nrows epsilon" and im: "i < nrows ?mu" and il: "i < nrows ?ls"
    using i se by (simp_all add: same_shape_def nrows_def)
  have "i < nrows (zipped (*) epsilon (t_map exp ?ls))"
    using ie il by (simp add: zipped_def nrows_def t_map_def)
  then have "rows ?z ! i = map2 (+) (rows ?mu ! i) (rows (zipped (*) epsilon (t_map exp ?ls)) ! i)"
    using im by (intro rows_zipped_nth)
  also have "rows (zipped (*) epsilon (t_map exp ?ls)) ! i
      = map2 (*) (rows epsilon ! i) (rows (t_map exp ?ls) ! i)"
    using ie il by (intro rows_zipped_nth) (simp_all add: nrows_t_map)
  also have "rows (t_map exp ?ls) ! i = map exp (fs (rows x ! i))"
    using i il by (simp add: rows_t_map_nth nrows_def)
  also have "rows ?mu ! i = fm (rows x ! i)"
    using i by (simp add: nrows_def)
  finally have zi: "rows ?z ! i = map2 (+) (fm (rows x ! i))
                      (map2 (*) (rows epsilon ! i) (map exp (fs (rows x ! i))))" .
  have "i < nrows ?z" using sz im by (simp add: same_shape_def)
  then have ti: "rows ?th ! i = fd (rows ?z ! i)"
    by (simp add: nrows_def)
  have "out ! i = (\<Sum>j<ncols x. entry x i j * ln (entry ?th i j)
                               + (1 - entry x i j) * ln (1 - entry ?th i j)) - kl ! i"
    using nth i by simp
  then have "out ! i = (\<Sum>j<input. rows x ! i ! j * ln (fd (rows ?z ! i) ! j)
                               + (1 - rows x ! i ! j) * ln (1 - fd (rows ?z ! i) ! j)) - kl ! i"
    unfolding entry_def ti x(2) .
  with out k zi show ?thesis
    by simp
qed

text \<open>
  Claim C9. Entry \<open>i\<close> of \<open>kl_divergence\<close> depends on row \<open>i\<close> of \<open>mu\<close> and of
  \<open>logsigma\<close> only: two calls whose arguments agree on row \<open>i\<close> agree on entry \<open>i\<close>.
  For \<open>elbo\<close>, with an encoder and a decoder that work row by row, two batches of the
  same number of rows that agree on row \<open>i\<close>, evaluated from the same generator state
  (so with the same noise), agree on entry \<open>i\<close>.
\<close>

theorem batch_rows_independent:
  "(wf_tensor mu \<and> wf_tensor logsigma \<and> same_shape mu logsigma \<and>
    wf_tensor mu' \<and> wf_tensor logsigma' \<and> same_shape mu' logsigma' \<and>
    i < nrows mu \<and> i < nrows mu' \<and>
    rows mu ! i = rows mu' ! i \<and> rows logsigma ! i = rows logsigma' ! i
    \<longrightarrow> (\<exists>kl kl'. kl_divergence mu logsigma = Inr kl \<and>
           kl_divergence mu' logsigma' = Inr kl' \<and> kl ! i = kl' ! i)) \<and>
   (encoder_rowwise (encoder M) input latent \<and> decoder_rowwise (decoder M) latent input \<and>
    wf_tensor x \<and> wf_tensor x' \<and> ncols x = input \<and> ncols x' = input \<and>
    nrows x = nrows x' \<and> i < nrows x \<and> rows x ! i = rows x' ! i
    \<longrightarrow> (\<exists>out out' g'. elbo R M x g = Inr (out, g') \<and> elbo R M x' g = Inr (out', g') \<and>
           out ! i = out' ! i))"
proof (intro conjI impI)
  assume h: "wf_tensor mu \<and> wf_tensor logsigma \<and> same_shape mu logsigma \<and>
    wf_tensor mu' \<and> wf_tensor logsigma' \<and> same_shape mu' logsigma' \<and>
    i < nrows mu \<and> i < nrows mu' \<and>
    rows mu ! i = rows mu' ! i \<and> rows logsigma ! i = rows logsigma' ! i"
  then have a: "wf_tensor mu" "wf_tensor logsigma" "same_shape mu logsigma"
    and b: "wf_tensor mu'" "wf_tensor logsigma'" "same_shape mu' logsigma'"
    and c: "i < nrows mu" "i < nrows mu'"
      "rows mu ! i = rows mu' ! i" "rows logsigma ! i = rows logsigma' ! i"
    by simp_all
  obtain kl where kl: "kl_divergence mu logsigma = Inr kl"
    using kl_divergence_eq [OF a] by blast
  obtain kl' where kl': "kl_divergence mu' logsigma' = Inr kl'"
    using kl_divergence_eq [OF b] by blast
  have "kl ! i = kl' ! i"
    using a b c kl kl' by (rule kl_divergence_row_local)
  with kl kl' show "\<exists>kl kl'. kl_divergence mu logsigma = Inr kl \<and>
           kl_divergence mu' logsigma' = Inr kl' \<and> kl ! i = kl' ! i"
    by blast
next
  assume h: "encoder_rowwise (encoder M) input latent \<and> decoder_rowwise (decoder M) latent input \<and>
    wf_tensor x \<and> wf_tensor x' \<and> ncols x = input \<and> ncols x' = input \<and>
    nrows x = nrows x' \<and> i < nrows x \<and> rows x ! i = rows x' ! i"
  then obtain fm fs where enc: "\<forall>r. length (fm r) = latent \<and> length (fs r) = latent"
      "\<forall>x. wf_tensor x \<and> ncols x = input \<longrightarrow>
           encoder M x = Inr (\<lparr>ncols = latent, rows = map fm (rows x)\<rparr>,
                              \<lparr>ncols = latent, rows = map fs (rows x)\<rparr>)"
    unfolding encoder_rowwise_def by blast
  from h obtain fd where dec: "\<forall>r. length (fd r) = input"
      "\<forall>z. wf_tensor z \<and> ncols z = latent \<longrightarrow>
           decoder M z = Inr \<lparr>ncols = input, rows = map fd (rows z)\<rparr>"
    unfolding decoder_rowwise_def by blast
  from h have x: "wf_tensor x" "ncols x = input" and x': "wf_tensor x'" "ncols x' = input"
    and n: "nrows x = nrows x'" and i: "i < nrows x" "i < nrows x'"
    and r: "rows x ! i = rows x' ! i"
    by simp_all
  obtain epsilon g' where
    noise: "randn_like R \<lparr>ncols = latent, rows = replicate (nrows x) []\<rparr> g = (epsilon, g')"
    by (cases "randn_like R \<lparr>ncols = latent, rows = replicate (nrows x) []\<rparr> g")
  then have noise': "randn_like R \<lparr>ncols = latent, rows = replicate (nrows x') []\<rparr> g = (epsilon, g')"
    by (simp add: n)
  obtain out kl where out: "elbo R M x g = Inr (out, g')"
    and kl: "kl_divergence \<lparr>ncols = latent, rows = [fm (rows x ! i)]\<rparr>
                         \<lparr>ncols = latent, rows = [fs (rows x ! i)]\<rparr> = Inr [kl]"
    and oi: "out ! i = (\<Sum>j<input. rows x ! i ! j *
                 ln (fd (map2 (+) (fm (rows x ! i))
                      (map2 (*) (rows epsilon ! i) (map exp (fs (rows x ! i))))) ! j)
               + (1 - rows x ! i ! j) *
                 ln (1 - fd (map2 (+) (fm (rows x ! i))
                      (map2 (*) (rows epsilon ! i) (map exp (fs (rows x ! i))))) ! j)) - kl"
    using elbo_rowwise_eval [OF enc dec x noise i(1)] by blast
  obtain out' kl' where out': "elbo R M x' g = Inr (out', g')"
    and kl': "kl_divergence \<lparr>ncols = latent, rows = [fm (rows x' ! i)]\<rparr>
                         \<lparr>ncols = latent, rows = [fs (rows x' ! i)]\<rparr> = Inr [kl']"
    and oi': "out' ! i = (\<Sum>j<input. rows x' ! i ! j *
                 ln (fd (map2 (+) (fm (rows x' ! i))
                      (map2 (*) (rows epsilon ! i) (map exp (fs (rows x' ! i))))) ! j)
               + (1 - rows x' ! i ! j) *
                 ln (1 - fd (map2 (+) (fm (rows x' ! i))
                      (map2 (*) (rows epsilon ! i) (map exp (fs (rows x' ! i))))) ! j)) - kl'"
    using elbo_rowwise_eval [OF enc dec x' noise' i(2)] by blast
  have "kl = kl'"
    using kl kl' unfolding r by simp
  then have "out ! i = out' ! i"
    unfolding oi oi' r by simp
  with out out' show "\<exists>out out' g'. elbo R M x g = Inr (out, g') \<and>
           elbo R M x' g = Inr (out', g') \<and> out ! i = out' ! i"
    by blast
qed

lemma example_vae_rowwise:
  "encoder_rowwise (encoder example_vae) 4 2" "decoder_rowwise (decoder example_vae) 2 4"
proof -
  show "encoder_rowwise (encoder example_vae) 4 2"
    unfolding encoder_rowwise_def
    by (rule exI [of _ "\<lambda>r. [sum_list r, 0]"], rule exI [of _ "\<lambda>r. [0, 0]"])
      (simp add: example_vae_def)
  show "decoder_rowwise (decoder example_vae) 2 4"
    unfolding decoder_rowwise_def
    by (rule exI [of _ "\<lambda>r. [1 / 2, 1 / 2, 1 / 2, 1 / 2]"]) (simp add: example_vae_def)
qed

theorem batch_rows_independent_witness:
  "(wf_tensor example_mu \<and> wf_tensor example_logsigma \<and> same_shape example_mu example_logsigma \<and>
    wf_tensor \<lparr>ncols = 2, rows = [[1, 2], [7, - 1], [5, 5]]\<rparr> \<and>
    wf_tensor \<lparr>ncols = 2, rows = [[0, 0], [1, 1], [2, 2]]\<rparr> \<and>
    same_shape \<lparr>ncols = 2, rows = [[1, 2], [7, - 1], [5, 5]]\<rparr>
               \<lparr>ncols = 2, rows = [[0, 0], [1, 1], [2, 2]]\<rparr> \<and>
    0 < nrows example_mu \<and> 0 < nrows \<lparr>ncols = 2, rows = [[1, 2], [7, - 1], [5, 5]]\<rparr> \<and>
    rows example_mu ! 0 = rows \<lparr>ncols = 2, rows = [[1, 2], [7, - 1], [5, 5]]\<rparr> ! 0 \<and>
    rows example_logsigma ! 0 = rows \<lparr>ncols = 2, rows = [[0, 0], [1, 1], [2, 2]]\<rparr> ! 0) \<and>
   (\<exists>kl kl'. kl_divergence example_mu example_logsigma = Inr kl \<and>
      kl_divergence \<lparr>ncols = 2, rows = [[1, 2], [7, - 1], [5, 5]]\<rparr>
                    \<lparr>ncols = 2, rows = [[0, 0], [1, 1], [2, 2]]\<rparr> = Inr kl' \<and>
      kl ! 0 = kl' ! 0) \<and>
   (encoder_rowwise (encoder example_vae) 4 2 \<and> decoder_rowwise (decoder example_vae) 2 4 \<and>
    wf_tensor example_x \<and>
    wf_tensor \<lparr>ncols = 4, rows = [[1, 0, 1, 0], [1, 1, 0, 0], [0, 1, 0, 1]]\<rparr> \<and>
    ncols example_x = 4 \<and>
    ncols \<lparr>ncols = 4, rows = [[1, 0, 1, 0], [1, 1, 0, 0], [0, 1, 0, 1 :: real]]\<rparr> = 4 \<and>
    nrows example_x = nrows \<lparr>ncols = 4, rows = [[1, 0, 1, 0], [1, 1, 0, 0], [0, 1, 0, 1]]\<rparr> \<and>
    0 < nrows example_x \<and>
    rows example_x ! 0 = rows \<lparr>ncols = 4, rows = [[1, 0, 1, 0], [1, 1, 0, 0], [0, 1, 0, 1]]\<rparr> ! 0) \<and>
   (\<exists>out out' g'. elbo example_rng example_vae example_x 0 = Inr (out, g') \<and>
      elbo example_rng example_vae
         \<lparr>ncols = 4, rows = [[1, 0, 1, 0], [1, 1, 0, 0], [0, 1, 0, 1]]\<rparr> 0 = Inr (out', g') \<and>
      out ! 0 = out' ! 0)"
proof -
  let ?mu' = "\<lparr>ncols = 2, rows = [[1, 2], [7, - 1], [5, 5 :: real]]\<rparr>"
  let ?ls' = "\<lparr>ncols = 2, rows = [[0, 0], [1, 1], [2, 2 :: real]]\<rparr>"
  let ?x' = "\<lparr>ncols = 4, rows = [[1, 0, 1, 0], [1, 1, 0, 0], [0, 1, 0, 1 :: real]]\<rparr>"
  have a: "wf_tensor example_mu \<and> wf_tensor example_logsigma \<and> same_shape example_mu example_logsigma \<and>
    wf_tensor ?mu' \<and> wf_tensor ?ls' \<and> same_shape ?mu' ?ls' \<and>
    0 < nrows example_mu \<and> 0 < nrows ?mu' \<and>
    rows example_mu ! 0 = rows ?mu' ! 0 \<and> rows example_logsigma ! 0 = rows ?ls' ! 0"
    by (simp add: wf_tensor_def same_shape_def nrows_def example_mu_def example_logsigma_def)
  have b: "encoder_rowwise (encoder example_vae) 4 2 \<and> decoder_rowwise (decoder example_vae) 2 4 \<and>
    wf_tensor example_x \<and> wf_tensor ?x' \<and> ncols example_x = 4 \<and> ncols ?x' = 4 \<and>
    nrows example_x = nrows ?x' \<and> 0 < nrows example_x \<and> rows example_x ! 0 = rows ?x' ! 0"
    using example_vae_rowwise by (simp add: wf_tensor_def nrows_def example_x_def)
  note t = batch_rows_independent [of example_mu example_logsigma ?mu' ?ls' 0
      example_vae 4 2 example_x ?x' example_rng 0]
  from t a have c: "\<exists>kl kl'. kl_divergence example_mu example_logsigma = Inr kl \<and>
      kl_divergence ?mu' ?ls' = Inr kl' \<and> kl ! 0 = kl' ! 0"
    by blast
  from t b have d: "\<exists>out out' g'. elbo example_rng example_vae example_x 0 = Inr (out, g') \<and>
      elbo example_rng example_vae ?x' 0 = Inr (out', g') \<and> out ! 0 = out' ! 0"
    by blast
  from a c b d show ?thesis
    by blast
qed

section \<open>Generating samples\<close>

lemma randn_props:
  assumes "0 \<le> m" "0 \<le> n"
  shows "\<exists>z g1. randn R m n g = Inr (z, g1) \<and> wf_tensor z \<and> nrows z = nat m \<and> ncols z = nat n"
proof -
  obtain rs g1 where rs: "draw_rows (next_normal R) (nat m) (nat n) g = (rs, g1)"
    by (cases "draw_rows (next_normal R) (nat m) (nat n) g")
  have "randn R m n g = Inr (\<lparr>ncols = nat n, rows = rs\<rparr>, g1)"
    using assms rs by (simp add: randn_def)
  moreover have "wf_tensor \<lparr>ncols = nat n, rows = rs\<rparr>"
    using draw_rows_row_length [OF rs] by (simp add: wf_tensor_iff)
  moreover have "nrows \<lparr>ncols = nat n, rows = rs\<rparr> = nat m"
    using draw_rows_length [OF rs] by (simp add: nrows_def)
  ultimately show ?thesis by simp
qed

lemma bernoulli_row_props:
  "bernoulli_row u ps g = (xs, g') \<Longrightarrow> length xs = length ps \<and> (\<forall>v\<in>set xs. v = 0 \<or> v = 1)"
proof (induction ps arbitrary: g xs g')
  case Nil
  then show ?case by simp
next
  case (Cons p ps)
  obtain v g1 where a: "u g = (v, g1)" by (cases "u g")
  obtain xs1 g2 where b: "bernoulli_row u ps g1 = (xs1, g2)" by (cases "bernoulli_row u ps g1")
  have xs: "xs = (if v < p then 1 else 0) # xs1"
    using Cons.prems a b by simp
  have "length xs1 = length ps \<and> (\<forall>v\<in>set xs1. v = 0 \<or> v = 1)"
    using b by (rule Cons.IH)
  then show ?case
    unfolding xs by simp
qed

lemma bernoulli_rows_props:
  "bernoulli_rows u rs g = (xs, g') \<Longrightarrow>
     length xs = length rs \<and>
     (\<forall>k<length rs. length (xs ! k) = length (rs ! k) \<and> (\<forall>v\<in>set (xs ! k). v = 0 \<or> v = 1))"
proof (induction rs arbitrary: g xs g')
  case Nil
  then show ?case by simp
next
  case (Cons r rs)
  obtain xr g1 where a: "bernoulli_row u r g = (xr, g1)" by (cases "bernoulli_row u r g")
  obtain xs1 g2 where b: "bernoulli_rows u rs g1 = (xs1, g2)" by (cases "bernoulli_rows u rs g1")
  have xs: "xs = xr # xs1"
    using Cons.prems a b by simp
  have ra: "length xr = length r \<and> (\<forall>v\<in>set xr. v = 0 \<or> v = 1)"
    using a by (rule bernoulli_row_props)
  have rb: "length xs1 = length rs \<and>
     (\<forall>k<length rs. length (xs1 ! k) = length (rs ! k) \<and> (\<forall>v\<in>set (xs1 ! k). v = 0 \<or> v = 1))"
    using b by (rule Cons.IH)
  show ?case
    unfolding xs using ra rb by (auto simp: nth_Cons split: nat.splits)
qed

lemma bernoulli_props:
  assumes "wf_tensor theta"
    and "\<forall>i<nrows theta. \<forall>j<ncols theta. 0 \<le> entry theta i j \<and> entry theta i j \<le> 1"
  shows "\<exists>x g'. bernoulli R theta g = Inr (x, g') \<and> wf_tensor x \<and> same_shape x theta \<and>
           (\<forall>i<nrows theta. \<forall>j<ncols theta. entry x i j = 0 \<or> entry x i j = 1)"
proof -
  have ok: "\<not> list_ex (list_ex (\<lambda>p. p < 0 \<or> 1 < p)) (rows theta)"
  proof
    assume "list_ex (list_ex (\<lambda>p. p < 0 \<or> 1 < p)) (rows theta)"
    then obtain r p where r: "r \<in> set (rows theta)" and p: "p \<in> set r" and bad: "p < 0 \<or> 1 < p"
      by (auto simp: list_ex_iff)
    from r obtain i where i: "i < length (rows theta)" "rows theta ! i = r"
      by (auto simp: in_set_conv_nth)
    from p obtain j where j: "j < length r" "r ! j = p"
      by (auto simp: in_set_conv_nth)
    have "length r = ncols theta"
      using assms(1) r by (simp add: wf_tensor_iff)
    with assms(2) i j have "0 \<le> p \<and> p \<le> 1"
      by (auto simp: nrows_def entry_def)
    with bad show False by simp
  qed
  obtain xs g' where xs: "bernoulli_rows (next_uniform R) (rows theta) g = (xs, g')"
    by (cases "bernoulli_rows (next_uniform R) (rows theta) g")
  let ?x = "\<lparr>ncols = ncols theta, rows = xs\<rparr>"
  note pr = bernoulli_rows_props [OF xs]
  have eq: "bernoulli R theta g = Inr (?x, g')"
    using ok xs by (simp add: bernoulli_def)
  have len: "length xs = length (rows theta)"
    using pr by simp
  have row: "length (xs ! k) = ncols theta" "\<forall>v\<in>set (xs ! k). v = 0 \<or> v = 1"
    if "k < length (rows theta)" for k
    using pr that assms(1) by (simp_all add: wf_tensor_iff)
  have wf: "wf_tensor ?x"
    using row(1) len by (auto simp: wf_tensor_iff in_set_conv_nth)
  have sh: "same_shape ?x theta"
    using len by (simp add: same_shape_def nrows_def)
  have "entry ?x i j = 0 \<or> entry ?x i j = 1" if "i < nrows theta" "j < ncols theta" for i j
  proof -
    have "xs ! i ! j \<in> set (xs ! i)"
      using that row(1) [of i] by (simp add: nrows_def)
    then show ?thesis
      using row(2) [of i] that by (simp add: entry_def nrows_def)
  qed
  with eq wf sh show ?thesis by blast
qed

lemma sample_eval:
  assumes "0 \<le> num_samples" and "0 \<le> latent_dim M"
    and "decoder_contract (decoder M) (nat (latent_dim M)) input_dim"
  shows "\<exists>z theta x g'. sample R M num_samples ''cpu'' g = Inr ((z, theta, x), g') \<and>
           wf_tensor z \<and> nrows z = nat num_samples \<and> ncols z = nat (latent_dim M) \<and>
           wf_tensor theta \<and> nrows theta = nat num_samples \<and> ncols theta = input_dim \<and>
           wf_tensor x \<and> nrows x = nat num_samples \<and> ncols x = input_dim \<and>
           (\<forall>i<nat num_samples. \<forall>j<input_dim.
              (entry x i j = 0 \<or> entry x i j = 1) \<and> 0 < entry theta i j \<and> entry theta i j < 1)"
proof -
  obtain z g1 where z: "randn R num_samples (latent_dim M) g = Inr (z, g1)"
    "wf_tensor z" "nrows z = nat num_samples" "ncols z = nat (latent_dim M)"
    using randn_props [OF assms(1,2), of R g] by blast
  obtain theta where th: "decoder M z = Inr theta" "wf_tensor theta" "nrows theta = nrows z"
    "ncols theta = input_dim"
    "\<forall>i<nrows theta. \<forall>j<input_dim. 0 < entry theta i j \<and> entry theta i j < 1"
    using assms(3) z(2,4) unfolding decoder_contract_def by blast
  have rng: "\<forall>i<nrows theta. \<forall>j<ncols theta. 0 \<le> entry theta i j \<and> entry theta i j \<le> 1"
    using th(4,5) by (auto simp: less_imp_le)
  obtain x g2 where x: "bernoulli R theta g1 = Inr (x, g2)" "wf_tensor x" "same_shape x theta"
    "\<forall>i<nrows theta. \<forall>j<ncols theta. entry x i j = 0 \<or> entry x i j = 1"
    using bernoulli_props [OF th(2) rng, of R g1] by blast
  have "sample R M num_samples ''cpu'' g = Inr ((z, theta, x), g2)"
    using x(3) th(3) by (simp add: sample_def z(1) tensor_to_def th(1) x(1) same_shape_def)
  with z th x show ?thesis
    by (auto simp: same_shape_def)
qed

lemma example_decoder_contract: "decoder_contract (decoder example_vae) 2 4"
proof -
  have e: "[a, a, a, a] ! j = a" if "j < 4" for j :: nat and a :: real
    using that by (auto simp: nth_Cons split: nat.splits)
  show ?thesis
    unfolding decoder_contract_def
    by (auto simp: example_vae_def wf_tensor_iff nrows_def entry_def e)
qed

lemma example_latent_dim: "0 \<le> latent_dim example_vae" "nat (latent_dim example_vae) = 2"
  by (simp_all add: example_vae_def)

text \<open>
  Claim C7. For a positive \<open>N\<close>, \<open>sample\<close> on the CPU returns \<open>z\<close> of shape
  \<open>(N, latent_dim)\<close>, \<open>theta\<close> of shape \<open>(N, input_dim)\<close> and \<open>x\<close> of shape
  \<open>(N, input_dim)\<close>; every entry of \<open>x\<close> is 0 or 1 and every entry of \<open>theta\<close> is
  strictly between 0 and 1. The decoder honours its interface, which is where
  \<open>input_dim\<close> and the range of \<open>theta\<close> come from.
\<close>

theorem sample_shapes_and_ranges:
  assumes "0 < N" and "0 \<le> latent_dim M"
    and "decoder_contract (decoder M) (nat (latent_dim M)) input_dim"
  shows "\<exists>z theta x g'. sample R M N ''cpu'' g = Inr ((z, theta, x), g') \<and>
           wf_tensor z \<and> nrows z = nat N \<and> ncols z = nat (latent_dim M) \<and>
           wf_tensor theta \<and> nrows theta = nat N \<and> ncols theta = input_dim \<and>
           wf_tensor x \<and> nrows x = nat N \<and> ncols x = input_dim \<and>
           (\<forall>i<nat N. \<forall>j<input_dim.
              (entry x i j = 0 \<or> entry x i j = 1) \<and> 0 < entry theta i j \<and> entry theta i j < 1)"
proof -
  from assms(1) have "0 \<le> N" by simp
  then show ?thesis
    using assms(2,3) by (rule sample_eval)
qed

theorem sample_shapes_and_ranges_witness:
  "(0::int) < 2 \<and> 0 \<le> latent_dim example_vae \<and>
   decoder_contract (decoder example_vae) (nat (latent_dim example_vae)) 4 \<and>
   (\<exists>z theta x g'. sample example_rng example_vae 2 ''cpu'' 0 = Inr ((z, theta, x), g') \<and>
      wf_tensor z \<and> nrows z = 2 \<and> ncols z = 2 \<and>
      wf_tensor theta \<and> nrows theta = 2 \<and> ncols theta = 4 \<and>
      wf_tensor x \<and> nrows x = 2 \<and> ncols x = 4 \<and>
      (\<forall>i<2. \<forall>j<4.
         (entry x i j = 0 \<or> entry x i j = 1) \<and> 0 < entry theta i j \<and> entry theta i j < 1))"
proof -
  have p: "(0::int) < 2" by simp
  have c: "decoder_contract (decoder example_vae) (nat (latent_dim example_vae)) 4"
    using example_decoder_contract by (simp add: example_latent_dim)
  show ?thesis
    using sample_shapes_and_ranges [OF p example_latent_dim(1) c, of example_rng 0] p c
    by (simp add: example_latent_dim)
qed

text \<open>
  Claim C10. \<open>sample\<close> with \<open>num_samples = 0\<close> does not raise: nothing checks
  \<open>num_samples\<close>, \<open>randn\<close> returns a tensor with no rows without drawing, and the
  result is three empty tensors of shapes \<open>(0, latent_dim)\<close>, \<open>(0, input_dim)\<close> and
  \<open>(0, input_dim)\<close>, with the generator as it was. The decoder honours its interface on
  the empty batch.
\<close>

theorem sample_zero_returns_empty:
  assumes "0 \<le> latent_dim M"
    and "decoder_contract (decoder M) (nat (latent_dim M)) input_dim"
  shows "sample R M 0 ''cpu'' g
           = Inr ((\<lparr>ncols = nat (latent_dim M), rows = []\<rparr>,
                   \<lparr>ncols = input_dim, rows = []\<rparr>,
                   \<lparr>ncols = input_dim, rows = []\<rparr>), g)"
proof -
  let ?z = "\<lparr>ncols = nat (latent_dim M), rows = []\<rparr>"
  have z: "randn R 0 (latent_dim M) g = Inr (?z, g)"
    using assms(1) by (simp add: randn_def)
  have "wf_tensor ?z" "ncols ?z = nat (latent_dim M)"
    by (simp_all add: wf_tensor_def)
  then obtain theta where th: "decoder M ?z = Inr theta" "nrows theta = nrows ?z"
    "ncols theta = input_dim"
    using assms(2) unfolding decoder_contract_def by blast
  have "theta = \<lparr>ncols = input_dim, rows = []\<rparr>"
    using th(2,3) by (cases theta) (simp add: nrows_def)
  then have d: "decoder M ?z = Inr \<lparr>ncols = input_dim, rows = []\<rparr>"
    using th(1) by simp
  show ?thesis
    by (simp add: sample_def z tensor_to_def d bernoulli_def nrows_def)
qed

theorem sample_zero_returns_empty_witness:
  "0 \<le> latent_dim example_vae \<and>
   decoder_contract (decoder example_vae) (nat (latent_dim example_vae)) 4 \<and>
   sample example_rng example_vae 0 ''cpu'' 5
     = Inr ((\<lparr>ncols = 2, rows = []\<rparr>, \<lparr>ncols = 4, rows = []\<rparr>, \<lparr>ncols = 4, rows = []\<rparr>), 5)"
proof -
  have c: "decoder_contract (decoder example_vae) (nat (latent_dim example_vae)) 4"
    using example_decoder_contract by (simp add: example_latent_dim)
  show ?thesis
    using sample_zero_returns_empty [OF example_latent_dim(1) c, of example_rng 5] c
    by (simp add: example_latent_dim)
qed

text \<open>
  Claim C4 says that \<open>sample\<close> rejects \<open>num_samples\<close> equal to zero or negative with an
  InvalidArgument error. At zero it returns instead: the small model, asked for no
  samples on the CPU, gives three empty tensors.
\<close>

theorem sample_zero_not_rejected:
  "sample example_rng example_vae 0 ''cpu'' 0
     = Inr ((\<lparr>ncols = 2, rows = []\<rparr>, \<lparr>ncols = 4, rows = []\<rparr>, \<lparr>ncols = 4, rows = []\<rparr>), 0)"
  by (simp add: sample_def randn_def tensor_to_def bernoulli_def nrows_def example_vae_def)

text \<open>
  Claim C4, amended. \<open>sample\<close> with a negative \<open>num_samples\<close> is rejected: on any
  device and from any generator state it raises the error of \<open>torch.randn\<close> for a
  negative dimension and returns no tensors.
\<close>

theorem sample_negative_rejected:
  "num_samples < 0 \<Longrightarrow> sample R M num_samples device g = Inl NegativeDimension"
  by (simp add: sample_def randn_def)

theorem sample_negative_rejected_witness:
  "(- 1 :: int) < 0 \<and> sample example_rng example_vae (- 1) ''cpu'' 0 = Inl NegativeDimension"
proof -
  have n: "(- 1 :: int) < 0" by simp
  show ?thesis
    using sample_negative_rejected [OF n, of example_rng example_vae "''cpu''" 0] n by simp
qed

end
